theory Spec2Isabelle
  imports Main "HOL-Library.AList"
begin

section \<open>Values\<close>

text \<open>
  The values a document holds: the JSON-native kinds, and the three Firestore classes
  that \<^verbatim>\<open>replacer\<close> tests with \<^verbatim>\<open>instanceof\<close>.  A number is a value of the
  type parameter \<open>'n\<close>: JavaScript numbers are IEEE doubles, and the only operations the
  code applies to them belong to the runtime (see \<open>runtime\<close> below).

  A Firestore object is recorded by what \<open>replacer\<close> reads of it: \<open>Timestamp s n\<close> has
  \<^verbatim>\<open>seconds\<close> \<open>s\<close> and \<^verbatim>\<open>nanoseconds\<close> \<open>n\<close>, \<open>GeoPoint la lo\<close> has \<^verbatim>\<open>latitude\<close> \<open>la\<close> and
  \<^verbatim>\<open>longitude\<close> \<open>lo\<close>, and \<open>DocumentReference fs p\<close> is the reference with \<^verbatim>\<open>path\<close> \<open>p\<close>
  in the Firestore instance \<open>fs\<close>.
\<close>

type_synonym firestore = string

datatype 'n jsvalue =
    JNull
  | JBool bool
  | JNum 'n
  | JStr string
  | JArr "'n jsvalue list"
  | JObj "(string \<times> 'n jsvalue) list"
  | Timestamp 'n 'n
  | GeoPoint 'n 'n
  | DocumentReference firestore string

type_synonym 'n fields = "(string \<times> 'n jsvalue) list"

text \<open>
  What the JavaScript runtime does with a number on the way through the codec:
  \<^verbatim>\<open>Number::toString\<close> (used by the template literals of \<^verbatim>\<open>replacer\<close>, and by
  \<^verbatim>\<open>JSON.stringify\<close> for a finite number), \<^verbatim>\<open>parseInt(x, 10)\<close> and \<^verbatim>\<open>parseFloat(x)\<close>,
  the test of \<^verbatim>\<open>JSON.stringify\<close> for a finite number (it writes \<^verbatim>\<open>null\<close> for NaN and the
  infinities), and the number that \<^verbatim>\<open>JSON.parse\<close> reads from the text of a number.  The
  argument of the parsers is \<open>None\<close> when the code passes \<^verbatim>\<open>undefined\<close> (an array read out
  of range).
\<close>

record 'n runtime =
  toString :: "'n \<Rightarrow> string"
  parseInt :: "string option \<Rightarrow> 'n"
  parseFloat :: "string option \<Rightarrow> 'n"
  isFinite :: "'n \<Rightarrow> bool"
  readNumber :: "string \<Rightarrow> 'n"

text \<open>
  What is thrown: an \<^verbatim>\<open>Error\<close> with its message, the runtime's \<^verbatim>\<open>TypeError\<close> for a
  property read on \<^verbatim>\<open>null\<close> or \<^verbatim>\<open>undefined\<close> and for a call of what is not a function, or
  the error of the client library for an argument it rejects, recorded by the argument's
  name.
\<close>

datatype error = Error string | TypeError | InvalidArgument string

text \<open>
  The client library (\<^verbatim>\<open>@google-cloud/firestore\<close>) is not code of this repository.  The
  reviver calls two of its constructors and one of its methods, and each of them checks
  its arguments and throws on those it rejects.  They are parameters:
  \<open>timestamp_rejected lib s n\<close> is the error that \<^verbatim>\<open>new firestore.Timestamp(s, n)\<close>
  throws (\<open>None\<close> when the timestamp is built), \<open>geopoint_rejected lib la lo\<close> the one
  that \<^verbatim>\<open>new firestore.GeoPoint(la, lo)\<close> throws, and \<open>document_path lib p\<close> is, for
  \<^verbatim>\<open>firestore.doc(p)\<close>, the error thrown or the path of the reference returned, which
  need not be \<open>p\<close> as it was written.
\<close>

record 'n client_library =
  timestamp_rejected :: "'n \<Rightarrow> 'n \<Rightarrow> error option"
  geopoint_rejected :: "'n \<Rightarrow> 'n \<Rightarrow> error option"
  document_path :: "string option \<Rightarrow> error + string"

definition new_Timestamp :: "'n client_library \<Rightarrow> 'n \<Rightarrow> 'n \<Rightarrow> error + 'n jsvalue" where
  "new_Timestamp lib seconds nanoseconds =
     (case timestamp_rejected lib seconds nanoseconds of
        Some e \<Rightarrow> Inl e
      | None \<Rightarrow> Inr (Timestamp seconds nanoseconds))"

definition new_GeoPoint :: "'n client_library \<Rightarrow> 'n \<Rightarrow> 'n \<Rightarrow> error + 'n jsvalue" where
  "new_GeoPoint lib latitude longitude =
     (case geopoint_rejected lib latitude longitude of
        Some e \<Rightarrow> Inl e
      | None \<Rightarrow> Inr (GeoPoint latitude longitude))"

definition firestore_doc ::
  "'n client_library \<Rightarrow> firestore \<Rightarrow> string option \<Rightarrow> error + 'n jsvalue" where
  "firestore_doc lib fs documentPath =
     (case document_path lib documentPath of
        Inl e \<Rightarrow> Inl e
      | Inr path \<Rightarrow> Inr (DocumentReference fs path))"

section \<open>helpers.ts\<close>

subsection \<open>Strings\<close>

text \<open>\<^verbatim>\<open>value.split(sep)\<close> for a one-character separator: never empty.\<close>

fun js_split :: "string \<Rightarrow> char \<Rightarrow> string list" where
  "js_split [] sep = [[]]"
| "js_split (x # xs) sep =
     (if x = sep then [] # js_split xs sep
      else (case js_split xs sep of
              [] \<Rightarrow> [[x]]
            | p # ps \<Rightarrow> (x # p) # ps))"

text \<open>\<^verbatim>\<open>array[i]\<close>: \<^verbatim>\<open>undefined\<close> (\<open>None\<close>) out of range.\<close>

definition element :: "'a list \<Rightarrow> nat \<Rightarrow> 'a option" where
  "element xs i = (if i < length xs then Some (xs ! i) else None)"

definition starts_with :: "string \<Rightarrow> string \<Rightarrow> bool" where
  "starts_with p s = (take (length p) s = p)"

text \<open>
  \<^verbatim>\<open>const symbolMatch = /^\$\$(Timestamp|GeoPoint|DocumentReference)\$\$:/\<close>, as
  \<^verbatim>\<open>symbolMatch.test(value)\<close>.
\<close>

definition symbolMatch :: "string \<Rightarrow> bool" where
  "symbolMatch s =
     (starts_with ''$$Timestamp$$:'' s \<or>
      starts_with ''$$GeoPoint$$:'' s \<or>
      starts_with ''$$DocumentReference$$:'' s)"

subsection \<open>reviverFactory and replacer\<close>

record collection_reference =
  coll_id :: string
  coll_path :: string
  coll_firestore :: firestore

text \<open>
  \<^verbatim>\<open>reviverFactory(collection)\<close> returns the reviver; the key is not used.  The
  branches of the \<^verbatim>\<open>switch\<close> are kept in the order of the source.  The reviver returns
  the value it puts in place of the one it was given, or throws what the constructor or
  \<^verbatim>\<open>collection.firestore.doc\<close> throws.
\<close>

definition reviverFactory ::
  "'n runtime \<Rightarrow> 'n client_library \<Rightarrow> collection_reference \<Rightarrow> 'n jsvalue \<Rightarrow>
   error + 'n jsvalue" where
  "reviverFactory rt lib collection v =
     (case v of
        JStr s \<Rightarrow>
          if symbolMatch s then
            (let split = js_split s CHR '':'' in
             if element split 0 = Some ''$$Timestamp$$'' then
               new_Timestamp lib (parseInt rt (element split 1)) (parseInt rt (element split 2))
             else if element split 0 = Some ''$$DocumentReference$$'' then
               firestore_doc lib (coll_firestore collection) (element split 1)
             else if element split 0 = Some ''$$GeoPoint$$'' then
               new_GeoPoint lib (parseFloat rt (element split 1)) (parseFloat rt (element split 2))
             else Inr v)
          else Inr v
      | _ \<Rightarrow> Inr v)"

definition replacer :: "'n runtime \<Rightarrow> 'n jsvalue \<Rightarrow> 'n jsvalue" where
  "replacer rt v =
     (case v of
        Timestamp seconds nanoseconds \<Rightarrow>
          JStr (''$$Timestamp$$:'' @ toString rt seconds @ '':'' @ toString rt nanoseconds)
      | DocumentReference fs path \<Rightarrow>
          JStr (''$$DocumentReference$$:'' @ path)
      | GeoPoint latitude longitude \<Rightarrow>
          JStr (''$$GeoPoint$$:'' @ toString rt latitude @ '':'' @ toString rt longitude)
      | _ \<Rightarrow> v)"

subsection \<open>The walks of JSON.stringify and JSON.parse\<close>

text \<open>
  \<^verbatim>\<open>JSON.stringify(v, replacer)\<close> calls the replacer on a value before it serialises
  it, and then descends into what the replacer returned; \<^verbatim>\<open>JSON.parse(text, reviver)\<close>
  revives the members of an array or object before the array or object itself, and an
  error thrown by the reviver ends the whole call.  The text between the two is the
  runtime's: \<open>stringify\<close> returns the JSON document that \<^verbatim>\<open>JSON.parse\<close> reads from the
  text written, and \<open>parse\<close> starts from it.  In that document a number that is not
  finite has become \<^verbatim>\<open>null\<close>, and a finite number is the one read from its text; null,
  booleans, strings, arrays and objects are read as they were written.  The three
  Firestore classes are taken to have no \<^verbatim>\<open>toJSON\<close> method, as the \<^verbatim>\<open>instanceof\<close>
  tests of \<open>replacer\<close> presuppose: the replacer sees the object itself.
\<close>

function stringify :: "'n runtime \<Rightarrow> 'n jsvalue \<Rightarrow> 'n jsvalue" where
  "stringify rt v =
     (case replacer rt v of
        JArr xs \<Rightarrow> JArr (map (stringify rt) xs)
      | JObj fs \<Rightarrow> JObj (map (\<lambda>kv. (fst kv, stringify rt (snd kv))) fs)
      | JNum n \<Rightarrow> if isFinite rt n then JNum (readNumber rt (toString rt n)) else JNull
      | w \<Rightarrow> w)"
  by pat_completeness auto
termination
proof (relation "measure (\<lambda>(rt, v). size v)", goal_cases)
  case 1
  show ?case by simp
next
  case (2 rt v xs x)
  then have "v = JArr xs"
    by (cases v) (simp_all add: replacer_def)
  with 2 show ?case by (auto simp: less_Suc_eq_le size_list_estimation')
next
  case (3 rt v fs kv)
  then have "v = JObj fs"
    by (cases v) (simp_all add: replacer_def)
  moreover have "size (snd kv) < Suc (size_list (size_prod (\<lambda>_. 0) size) fs)"
    using \<open>kv \<in> set fs\<close> by (induction fs) auto
  ultimately show ?case by simp
qed

text \<open>The results of a list of steps, or the first error among them.\<close>

fun collect :: "(error + 'a) list \<Rightarrow> error + 'a list" where
  "collect [] = Inr []"
| "collect (r # rs) =
     (case r of
        Inl e \<Rightarrow> Inl e
      | Inr x \<Rightarrow> (case collect rs of Inl e \<Rightarrow> Inl e | Inr xs \<Rightarrow> Inr (x # xs)))"

fun parse ::
  "'n runtime \<Rightarrow> 'n client_library \<Rightarrow> collection_reference \<Rightarrow> 'n jsvalue \<Rightarrow>
   error + 'n jsvalue" where
  "parse rt lib c (JArr xs) =
     (case collect (map (parse rt lib c) xs) of
        Inl e \<Rightarrow> Inl e
      | Inr ys \<Rightarrow> reviverFactory rt lib c (JArr ys))"
| "parse rt lib c (JObj fs) =
     (case collect (map (\<lambda>kv. case parse rt lib c (snd kv) of
                                Inl e \<Rightarrow> Inl e
                              | Inr y \<Rightarrow> Inr (fst kv, y)) fs) of
        Inl e \<Rightarrow> Inl e
      | Inr gs \<Rightarrow> reviverFactory rt lib c (JObj gs))"
| "parse rt lib c v = reviverFactory rt lib c v"

subsection \<open>FirestoreConverter\<close>

text \<open>
  An object literal with a spread, \<^verbatim>\<open>{ ...obj, ...src }\<close>: the properties of \<open>src\<close> are
  copied onto \<open>obj\<close> in order; a key that \<open>obj\<close> already has keeps its place and takes
  the new value.
\<close>

definition spread :: "'n fields \<Rightarrow> 'n fields \<Rightarrow> 'n fields" where
  "spread obj src = foldl (\<lambda>acc kv. AList.update (fst kv) (snd kv) acc) obj src"

text \<open>
  What \<open>fromFirestore\<close> reads of a \<^verbatim>\<open>QueryDocumentSnapshot\<close>: \<^verbatim>\<open>snap.id\<close>,
  \<^verbatim>\<open>snap.ref.parent.id\<close> and \<^verbatim>\<open>snap.data()\<close>.
\<close>

record 'n query_document_snapshot =
  snap_id :: string
  snap_parent_id :: string
  snap_data :: "'n fields"

record 'n firestore_data_converter =
  toFirestore :: "'n fields \<Rightarrow> 'n fields"
  fromFirestore :: "'n query_document_snapshot \<Rightarrow> 'n fields"

definition FirestoreConverter :: "'n firestore_data_converter" where
  "FirestoreConverter =
     \<lparr>toFirestore = (\<lambda>doc. filter (\<lambda>kv. fst kv \<noteq> ''id'' \<and> fst kv \<noteq> ''collection'') doc),
      fromFirestore = (\<lambda>snap.
        spread [(''id'', JStr (snap_id snap)), (''collection'', JStr (snap_parent_id snap))]
          (snap_data snap))\<rparr>"

section \<open>The collaborators\<close>

text \<open>
  The document store, the caching methods and the logger are not code of this
  repository's \<^verbatim>\<open>datasource.ts\<close>.  Their state is a value of the type parameter
  \<open>'w\<close>; an operation of theirs is an \<open>effect\<close>: from the state before, the value it
  resolves to or the error it throws, and the state after.
\<close>

type_synonym ('w, 'a) effect = "'w \<Rightarrow> (error + 'a) \<times> 'w"

subsection \<open>The collection\<close>

text \<open>
  A document reference of the collection with its converter, as \<^verbatim>\<open>datasource.ts\<close>
  uses one: \<^verbatim>\<open>.set(data)\<close> and \<^verbatim>\<open>.set(data, { merge: true })\<close>, \<^verbatim>\<open>.get()\<close> followed
  by \<^verbatim>\<open>.data()\<close> (\<open>None\<close> is \<^verbatim>\<open>undefined\<close>: no such document), and \<^verbatim>\<open>.delete()\<close>.
\<close>

record ('w, 'n) document_reference =
  ref_set :: "'n fields \<Rightarrow> bool \<Rightarrow> ('w, unit) effect"
  ref_get :: "('w, 'n fields option) effect"
  ref_delete :: "('w, 'n jsvalue) effect"

record ('w, 'n) converted_collection =
  doc :: "'n jsvalue option \<Rightarrow> ('w, 'n) document_reference"
  add :: "'n fields \<Rightarrow> ('w, ('w, 'n) document_reference) effect"

subsection \<open>The constructor's argument and isFirestoreCollection\<close>

text \<open>
  The argument is typed \<^verbatim>\<open>any\<close>.  Of the value of a property only its truthiness
  is read; a number is falsy when it is zero or NaN.
\<close>

datatype property =
    Undefined
  | Null
  | Boolean bool
  | FalsyNumber
  | TruthyNumber
  | Text string
  | Object
  | Function

fun truthy :: "property \<Rightarrow> bool" where
  "truthy Undefined = False"
| "truthy Null = False"
| "truthy (Boolean b) = b"
| "truthy FalsyNumber = False"
| "truthy TruthyNumber = True"
| "truthy (Text s) = (s \<noteq> [])"
| "truthy Object = True"
| "truthy Function = True"

text \<open>
  The constructor's argument: \<^verbatim>\<open>null\<close> or \<^verbatim>\<open>undefined\<close>, or a value with
  properties and a \<^verbatim>\<open>withConverter\<close> method.
\<close>

record ('w, 'n) collection_object =
  property :: "string \<Rightarrow> property"
  withConverter :: "'n firestore_data_converter \<Rightarrow> ('w, 'n) converted_collection"

datatype ('w, 'n) maybe_collection =
    Nullish
  | Properties "('w, 'n) collection_object"

fun isFirestoreCollection :: "('w, 'n) maybe_collection \<Rightarrow> error + bool" where
  "isFirestoreCollection Nullish = Inl TypeError"
| "isFirestoreCollection (Properties maybeCollection) =
     Inr (truthy (property maybeCollection ''id'') \<and>
          truthy (property maybeCollection ''path'') \<and>
          truthy (property maybeCollection ''firestore'') \<and>
          truthy (property maybeCollection ''doc''))"

subsection \<open>Queries, the loader, the cache and the caching methods\<close>

text \<open>
  The result of a query: \<^verbatim>\<open>qSnap.docs\<close> (each as its \<^verbatim>\<open>.data()\<close>),
  \<^verbatim>\<open>qSnap.size\<close> and \<^verbatim>\<open>qSnap.readTime\<close>.
\<close>

record 'n query_snapshot =
  snap_docs :: "'n fields list"
  snap_size :: nat
  readTime :: "'n jsvalue"

datatype 'n documents = One "'n fields" | Many "'n fields list"

datatype loader = DataLoader

datatype key_value_cache = InMemoryLRUCache | KeyValueCache string

record options =
  logger :: bool

text \<open>
  Modelled from the spec: \<^verbatim>\<open>src/cache.ts\<close> (the interface \<^verbatim>\<open>CachedMethods\<close> and the
  function \<^verbatim>\<open>createCachingMethods\<close>) is not among the sources.  The members are those
  the class \<^verbatim>\<open>FirestoreDataSource\<close> declares with the types
  \<^verbatim>\<open>CachedMethods<TData>['...']\<close>, which are the operations of the spec's Caching
  Facade (findOneById, findManyByIds, deleteFromCacheById, primeLoader, cachePrefix) with
  the loader and the cache.  What each method does is a parameter.
\<close>

record ('w, 'n) cached_methods =
  m_findOneById :: "string \<times> 'n option \<Rightarrow> ('w, 'n fields option) effect"
  m_findManyByIds :: "string list \<times> 'n option \<Rightarrow> ('w, 'n fields option list) effect"
  m_deleteFromCacheById :: "string \<Rightarrow> ('w, unit) effect"
  m_primeLoader :: "'n documents \<times> 'n option \<Rightarrow> ('w, unit) effect"
  m_dataLoader :: "loader option"
  m_cache :: key_value_cache
  m_cachePrefix :: string

record ('w, 'n) caching_arguments =
  arg_collection :: "('w, 'n) converted_collection"
  arg_cache :: key_value_cache
  arg_options :: options

section \<open>datasource.ts\<close>

text \<open>
  The calls a method makes to its collaborators are recorded in order, beside the
  collaborators' state: the query, \<^verbatim>\<open>collection.add\<close> and \<^verbatim>\<open>.get()\<close> of the reference
  it returned, \<^verbatim>\<open>.set\<close> (with the merge option), \<^verbatim>\<open>.get()\<close> and \<^verbatim>\<open>.delete()\<close> of
  \<^verbatim>\<open>collection.doc(id)\<close>, \<open>primeLoader\<close> and \<open>deleteFromCacheById\<close>, and the lines sent
  to the logger.  A log line is recorded by what it reports.
\<close>

datatype 'n message =
    Started
  | FindManyByQueryComplete nat "'n jsvalue"
  | CreatedId "'n jsvalue"
  | DeletingId string
  | UpdatingDocId "'n jsvalue option"
  | UpdatingPartialDocId string

datatype 'n call =
    Debug "'n message"
  | QueryGet
  | Add "'n fields"
  | AddedGet
  | DocSet "'n jsvalue option" "'n fields" bool
  | DocGet "'n jsvalue option"
  | DocDelete "'n jsvalue option"
  | PrimeLoader "'n documents" "'n option"
  | DeleteFromCacheById string

record ('w, 'n) world =
  ext :: 'w
  calls :: "'n call list"

type_synonym ('w, 'n, 'a) action = "('w, 'n) world \<Rightarrow> (error + 'a) \<times> ('w, 'n) world"

text \<open>
  \<^verbatim>\<open>await\<close> of a collaborator's operation: the call is made, then it resolves or
  throws.
\<close>

definition await :: "'n call \<Rightarrow> ('w, 'a) effect \<Rightarrow> ('w, 'n, 'a) action" where
  "await c operation w =
     (case operation (ext w) of (r, e) \<Rightarrow> (r, \<lparr>ext = e, calls = calls w @ [c]\<rparr>))"

text \<open>One statement after another: an error thrown by the first ends the method.\<close>

definition andThen ::
  "('w, 'n, 'a) action \<Rightarrow> ('a \<Rightarrow> ('w, 'n, 'b) action) \<Rightarrow> ('w, 'n, 'b) action" where
  "andThen m k w = (case m w of (Inl e, w') \<Rightarrow> (Inl e, w') | (Inr x, w') \<Rightarrow> k x w')"

definition return :: "'a \<Rightarrow> ('w, 'n, 'a) action" where
  "return x w = (Inr x, w)"

definition throw :: "error \<Rightarrow> ('w, 'n, 'a) action" where
  "throw e w = (Inl e, w)"

text \<open>\<^verbatim>\<open>options?.logger?.debug(...)\<close>: nothing happens without a logger.\<close>

definition debug :: "options \<Rightarrow> 'n message \<Rightarrow> ('w, 'n, unit) action" where
  "debug opts m w =
     (if logger opts then (Inr (), w\<lparr>calls := calls w @ [Debug m]\<rparr>) else (Inr (), w))"

definition placeholderHandler :: "'a \<Rightarrow> ('w, 'b) effect" where
  "placeholderHandler args e = (Inl (Error ''DataSource not initialized''), e)"

text \<open>
  The fields of the class.  \<open>reviver\<close> and \<open>replacer\<close>, which no method of the class
  reads, are left out.
\<close>

record ('w, 'n) datasource =
  collection :: "('w, 'n) converted_collection"
  context' :: "'n jsvalue option"
  options :: options
  findOneById :: "string \<times> 'n option \<Rightarrow> ('w, 'n fields option) effect"
  findManyByIds :: "string list \<times> 'n option \<Rightarrow> ('w, 'n fields option list) effect"
  deleteFromCacheById :: "string \<Rightarrow> ('w, unit) effect"
  primeLoader :: "'n documents \<times> 'n option \<Rightarrow> ('w, unit) effect"
  dataLoader :: "loader option"
  cache :: "key_value_cache option"
  cachePrefix :: "string option"

text \<open>
  \<^verbatim>\<open>qSnap.readTime.toDate()\<close>: the method of a Timestamp; the date is recorded by the
  Timestamp it is made from.  On any other value the read of \<^verbatim>\<open>toDate\<close> or its call
  throws a \<^verbatim>\<open>TypeError\<close>.
\<close>

definition toDate :: "'n jsvalue \<Rightarrow> error + 'n jsvalue" where
  "toDate v =
     (case v of
        Timestamp seconds nanoseconds \<Rightarrow> Inr (Timestamp seconds nanoseconds)
      | _ \<Rightarrow> Inl TypeError)"

text \<open>
  In \<^verbatim>\<open>if (this.dataLoader && results)\<close> the array \<open>results\<close> is truthy, also when it
  is empty: the guard is on the loader.  The argument of the log line is evaluated only
  when there is a logger: \<^verbatim>\<open>this.options?.logger?.debug(...)\<close> stops at a missing
  logger before it.
\<close>

definition findManyByQuery ::
  "(('w, 'n) converted_collection \<Rightarrow> ('w, 'n query_snapshot) effect) \<Rightarrow>
   ('w, 'n) datasource \<Rightarrow> 'n option \<Rightarrow> ('w, 'n, 'n fields list) action" where
  "findManyByQuery queryFunction this ttl =
     andThen (await QueryGet (queryFunction (collection this))) (\<lambda>qSnap.
     let results = snap_docs qSnap in
     andThen (if dataLoader this \<noteq> None
              then await (PrimeLoader (Many results) ttl) (primeLoader this (Many results, ttl))
              else return ()) (\<lambda>_.
     andThen (if logger (options this)
              then (case toDate (readTime qSnap) of
                      Inl e \<Rightarrow> throw e
                    | Inr date \<Rightarrow>
                        debug (options this) (FindManyByQueryComplete (snap_size qSnap) date))
              else return ()) (\<lambda>_.
     return results)))"

definition updateOne ::
  "('w, 'n) datasource \<Rightarrow> 'n fields \<Rightarrow> ('w, 'n, 'n fields option) action" where
  "updateOne this data =
     andThen (debug (options this) (UpdatingDocId (map_of data ''id''))) (\<lambda>_.
     andThen (await (DocSet (map_of data ''id'') data False)
                (ref_set (doc (collection this) (map_of data ''id'')) data False)) (\<lambda>_.
     andThen (await (DocGet (map_of data ''id''))
                (ref_get (doc (collection this) (map_of data ''id'')))) (\<lambda>result.
     andThen (case result of
                Some r \<Rightarrow> await (PrimeLoader (One r) None) (primeLoader this (One r, None))
              | None \<Rightarrow> return ()) (\<lambda>_.
     return result))))"

text \<open>\<^verbatim>\<open>result?.id ?? ''\<close>, the id that \<open>createOne\<close> logs.\<close>

definition created_id :: "'n fields option \<Rightarrow> 'n jsvalue" where
  "created_id result =
     (case result of
        None \<Rightarrow> JStr []
      | Some r \<Rightarrow>
          (case map_of r ''id'' of
             None \<Rightarrow> JStr []
           | Some JNull \<Rightarrow> JStr []
           | Some v \<Rightarrow> v))"

definition createOne ::
  "('w, 'n) datasource \<Rightarrow> 'n fields \<Rightarrow> 'n option \<Rightarrow> ('w, 'n, 'n fields option) action" where
  "createOne this newDoc ttl =
     (if ''id'' \<in> fst ` set newDoc then updateOne this newDoc
      else
        andThen (await (Add newDoc) (add (collection this) newDoc)) (\<lambda>dRef.
        andThen (await AddedGet (ref_get dRef)) (\<lambda>result.
        andThen (case result of
                   Some r \<Rightarrow> await (PrimeLoader (One r) ttl) (primeLoader this (One r, ttl))
                 | None \<Rightarrow> return ()) (\<lambda>_.
        andThen (debug (options this) (CreatedId (created_id result))) (\<lambda>_.
        return result)))))"

definition deleteOne :: "('w, 'n) datasource \<Rightarrow> string \<Rightarrow> ('w, 'n, 'n jsvalue) action" where
  "deleteOne this docId =
     andThen (debug (options this) (DeletingId docId)) (\<lambda>_.
     andThen (await (DocDelete (Some (JStr docId)))
                (ref_delete (doc (collection this) (Some (JStr docId))))) (\<lambda>response.
     andThen (await (DeleteFromCacheById docId) (deleteFromCacheById this docId)) (\<lambda>_.
     return response)))"

definition updateOnePartial ::
  "('w, 'n) datasource \<Rightarrow> string \<Rightarrow> 'n fields \<Rightarrow> ('w, 'n, 'n fields option) action" where
  "updateOnePartial this docId data =
     andThen (debug (options this) (UpdatingPartialDocId docId)) (\<lambda>_.
     andThen (await (DocSet (Some (JStr docId)) data True)
                (ref_set (doc (collection this) (Some (JStr docId))) data True)) (\<lambda>_.
     andThen (await (DocGet (Some (JStr docId)))
                (ref_get (doc (collection this) (Some (JStr docId))))) (\<lambda>result.
     andThen (case result of
                Some r \<Rightarrow> await (PrimeLoader (One r) None) (primeLoader this (One r, None))
              | None \<Rightarrow> return ()) (\<lambda>_.
     return result))))"

text \<open>
  The constructor: the field initialisers install the placeholders; the body logs,
  checks the argument and keeps the collection with the converter.  The fields without
  an initialiser are \<^verbatim>\<open>undefined\<close>.
\<close>

definition constructor ::
  "('w, 'n) maybe_collection \<Rightarrow> options \<Rightarrow> ('w, 'n, ('w, 'n) datasource) action" where
  "constructor maybeCollection opts =
     andThen (debug opts Started) (\<lambda>_ w.
       case isFirestoreCollection maybeCollection of
         Inl e \<Rightarrow> (Inl e, w)
       | Inr ok \<Rightarrow>
           (case maybeCollection of
              Nullish \<Rightarrow> (Inl TypeError, w)
            | Properties c \<Rightarrow>
                if \<not> ok then
                  (Inl (Error (''FirestoreDataSource must be created with a Firestore '' @
                     ''collection (from @google-cloud/firestore)'')), w)
                else
                  (Inr \<lparr>collection = withConverter c FirestoreConverter,
                        context' = None,
                        options = opts,
                        findOneById = placeholderHandler,
                        findManyByIds = placeholderHandler,
                        deleteFromCacheById = placeholderHandler,
                        primeLoader = placeholderHandler,
                        dataLoader = None,
                        cache = None,
                        cachePrefix = None\<rparr>, w)))"

text \<open>
  \<^verbatim>\<open>initialize({ context, cache } = {})\<close>; \<^verbatim>\<open>Object.assign(this, methods)\<close> copies every
  member of \<open>methods\<close> onto the data source.
\<close>

record 'n data_source_config =
  config_context :: "'n jsvalue option"
  config_cache :: "key_value_cache option"

definition initialize ::
  "(('w, 'n) caching_arguments \<Rightarrow> ('w, 'n) cached_methods) \<Rightarrow>
   ('w, 'n) datasource \<Rightarrow> 'n data_source_config \<Rightarrow> ('w, 'n) datasource" where
  "initialize createCachingMethods this config =
     (let this1 = this\<lparr>context' := config_context config\<rparr>;
          methods = createCachingMethods
            \<lparr>arg_collection = collection this1,
             arg_cache = (case config_cache config of Some c \<Rightarrow> c | None \<Rightarrow> InMemoryLRUCache),
             arg_options = options this1\<rparr>
      in this1\<lparr>findOneById := m_findOneById methods,
               findManyByIds := m_findManyByIds methods,
               deleteFromCacheById := m_deleteFromCacheById methods,
               primeLoader := m_primeLoader methods,
               dataLoader := m_dataLoader methods,
               cache := Some (m_cache methods),
               cachePrefix := Some (m_cachePrefix methods)\<rparr>)"


section \<open>Supported values\<close>

text \<open>
  A number is read back when its text holds no colon and the parser returns the number
  from its text.
\<close>

definition reads_back :: "'n runtime \<Rightarrow> (string option \<Rightarrow> 'n) \<Rightarrow> 'n \<Rightarrow> bool" where
  "reads_back rt parser x =
     (CHR '':'' \<notin> set (toString rt x) \<and> parser (Some (toString rt x)) = x)"

text \<open>
  The values for which the round trip is proved.  No plain string matches the sentinel
  pattern.  A number is finite and is the number read from its text.  The numbers of a
  timestamp or geo-point are read back by the runtime, and the library's constructor
  accepts them, as it did when the object was built.  A reference belongs to the
  Firestore instance of the reviver's collection, its path holds no colon, and
  \<^verbatim>\<open>firestore.doc\<close> of its path gives that path, as it does for the path of a reference
  that the library built.
\<close>

fun supported ::
  "'n runtime \<Rightarrow> 'n client_library \<Rightarrow> collection_reference \<Rightarrow> 'n jsvalue \<Rightarrow> bool" where
  "supported rt lib c (JStr s) = (\<not> symbolMatch s)"
| "supported rt lib c (JNum n) = (isFinite rt n \<and> readNumber rt (toString rt n) = n)"
| "supported rt lib c (Timestamp seconds nanoseconds) =
     (reads_back rt (parseInt rt) seconds \<and> reads_back rt (parseInt rt) nanoseconds \<and>
      timestamp_rejected lib seconds nanoseconds = None)"
| "supported rt lib c (GeoPoint latitude longitude) =
     (reads_back rt (parseFloat rt) latitude \<and> reads_back rt (parseFloat rt) longitude \<and>
      geopoint_rejected lib latitude longitude = None)"
| "supported rt lib c (DocumentReference fs path) =
     (fs = coll_firestore c \<and> CHR '':'' \<notin> set path \<and>
      document_path lib (Some path) = Inr path)"
| "supported rt lib c (JArr xs) = (\<forall>x \<in> set xs. supported rt lib c x)"
| "supported rt lib c (JObj fs) = (\<forall>kv \<in> set fs. supported rt lib c (snd kv))"
| "supported rt lib c v = True"

section \<open>Values for evaluation\<close>

text \<open>
  A runtime restricted to whole numbers: a number is an integer, the negative zero or
  NaN.  An integer is printed in decimal, the negative zero as \<open>0\<close>; the parsers skip
  leading white space, read a sign and the longest run of digits, and return NaN when
  there is no digit, and the negative zero for \<open>-0\<close>.  On a whole number of magnitude up
  to \<open>2\<^sup>5\<^sup>3\<close> and on its decimal text this is what \<^verbatim>\<open>Number::toString\<close>,
  \<^verbatim>\<open>parseInt\<close>, \<^verbatim>\<open>parseFloat\<close> and \<^verbatim>\<open>JSON.parse\<close> do.  \<open>digits_of\<close> is applied to
  numbers from 0 on.
\<close>

datatype number = NaN | NegativeZero | Whole int

definition digit_value :: "char \<Rightarrow> int option" where
  "digit_value ch =
     (let k = of_char ch :: int in if 48 \<le> k \<and> k \<le> 57 then Some (k - 48) else None)"

fun leading_digits :: "int option \<Rightarrow> string \<Rightarrow> int option" where
  "leading_digits acc [] = acc"
| "leading_digits acc (ch # rest) =
     (case digit_value ch of
        None \<Rightarrow> acc
      | Some d \<Rightarrow>
          leading_digits (Some (10 * (case acc of None \<Rightarrow> 0 | Some n \<Rightarrow> n) + d)) rest)"

definition is_space :: "char \<Rightarrow> bool" where
  "is_space ch = (let k = of_char ch :: int in k = 32 \<or> (9 \<le> k \<and> k \<le> 13))"

definition parse_whole :: "string option \<Rightarrow> number" where
  "parse_whole x =
     (case x of
        None \<Rightarrow> NaN
      | Some s \<Rightarrow>
          (let t = dropWhile is_space s in
           if t \<noteq> [] \<and> hd t = CHR ''-'' then
             (case leading_digits None (tl t) of
                None \<Rightarrow> NaN
              | Some n \<Rightarrow> if n = 0 then NegativeZero else Whole (- n))
           else if t \<noteq> [] \<and> hd t = CHR ''+'' then
             (case leading_digits None (tl t) of None \<Rightarrow> NaN | Some n \<Rightarrow> Whole n)
           else
             (case leading_digits None t of None \<Rightarrow> NaN | Some n \<Rightarrow> Whole n)))"

function digits_of :: "int \<Rightarrow> string" where
  "digits_of n =
     (if n < 10 then [char_of (48 + n)]
      else digits_of (n div 10) @ [char_of (48 + n mod 10)])"
  by pat_completeness auto
termination
  by (relation "measure nat") auto

definition show_whole :: "number \<Rightarrow> string" where
  "show_whole x =
     (case x of
        NaN \<Rightarrow> ''NaN''
      | NegativeZero \<Rightarrow> ''0''
      | Whole i \<Rightarrow> if i < 0 then CHR ''-'' # digits_of (- i) else digits_of i)"

definition whole_runtime :: "number runtime" where
  "whole_runtime =
     \<lparr>toString = show_whole, parseInt = parse_whole, parseFloat = parse_whole,
      isFinite = (\<lambda>x. x \<noteq> NaN), readNumber = (\<lambda>s. parse_whole (Some s))\<rparr>"

text \<open>
  The checks of the client library on these numbers and on a document path.  The seconds
  of a timestamp are an integer from -62135596800 to 253402300799 and its nanoseconds
  one from 0 to 999999999; a latitude is a number from -90 to 90 and a longitude one
  from -180 to 180.  A document path is a string that is not empty and does not contain
  \<open>//\<close>; it is split at the slashes, the empty segments (a leading or trailing slash)
  are dropped, and the segments left must be an even number, not zero.
\<close>

definition in_range :: "int \<Rightarrow> int \<Rightarrow> number \<Rightarrow> bool" where
  "in_range lo hi x =
     (case x of
        NaN \<Rightarrow> False
      | NegativeZero \<Rightarrow> lo \<le> 0 \<and> 0 \<le> hi
      | Whole i \<Rightarrow> lo \<le> i \<and> i \<le> hi)"

fun double_slash :: "string \<Rightarrow> bool" where
  "double_slash (a # b # rest) = ((a = CHR ''/'' \<and> b = CHR ''/'') \<or> double_slash (b # rest))"
| "double_slash s = False"

fun join_segments :: "string list \<Rightarrow> string" where
  "join_segments [] = []"
| "join_segments [s] = s"
| "join_segments (s # rest) = s @ ''/'' @ join_segments rest"

definition resource_path :: "string option \<Rightarrow> error + string" where
  "resource_path documentPath =
     (case documentPath of
        None \<Rightarrow> Inl (InvalidArgument ''documentPath'')
      | Some s \<Rightarrow>
          if s = [] \<or> double_slash s then Inl (InvalidArgument ''documentPath'')
          else
            (let segments = filter (\<lambda>x. x \<noteq> []) (js_split s CHR ''/'') in
             if segments \<noteq> [] \<and> even (length segments) then Inr (join_segments segments)
             else Inl (InvalidArgument ''documentPath'')))"

definition client :: "number client_library" where
  "client =
     \<lparr>timestamp_rejected = (\<lambda>seconds nanoseconds.
        if \<not> in_range (- 62135596800) 253402300799 seconds
        then Some (InvalidArgument ''seconds'')
        else if \<not> in_range 0 999999999 nanoseconds
        then Some (InvalidArgument ''nanoseconds'')
        else None),
      geopoint_rejected = (\<lambda>latitude longitude.
        if \<not> in_range (- 90) 90 latitude then Some (InvalidArgument ''latitude'')
        else if \<not> in_range (- 180) 180 longitude then Some (InvalidArgument ''longitude'')
        else None),
      document_path = resource_path\<rparr>"

definition users :: collection_reference where
  "users = \<lparr>coll_id = ''users'', coll_path = ''users'', coll_firestore = ''app''\<rparr>"

text \<open>The document of the spec's scenario, with a geo-point and a reference added.\<close>

definition ada :: "number fields" where
  "ada =
     [(''id'', JStr ''42''), (''collection'', JStr ''users''), (''name'', JStr ''Ada''),
      (''lastSeen'', Timestamp (Whole 1690000000) (Whole 0)),
      (''home'', GeoPoint (Whole 52) (Whole (- 13))),
      (''friends'', JArr [DocumentReference ''app'' ''users/7''])]"

text \<open>
  A collection kept in memory: the state of the store is the list of its documents by
  id.  Its \<^verbatim>\<open>withConverter\<close> passes what is written through \<open>toFirestore\<close> and what is
  read through \<open>fromFirestore\<close>; \<^verbatim>\<open>doc\<close> of anything but a string gives a reference
  whose operations fail.
\<close>

type_synonym 'n memory = "(string \<times> 'n fields) list"

definition failing_reference :: "('w, 'n) document_reference" where
  "failing_reference =
     \<lparr>ref_set = (\<lambda>data merge e. (Inl (Error ''invalid document path''), e)),
      ref_get = (\<lambda>e. (Inl (Error ''invalid document path''), e)),
      ref_delete = (\<lambda>e. (Inl (Error ''invalid document path''), e))\<rparr>"

definition memory_reference ::
  "'n firestore_data_converter \<Rightarrow> string \<Rightarrow> 'n jsvalue option \<Rightarrow>
   ('n memory, 'n) document_reference" where
  "memory_reference converter parent docId =
     (case docId of
        Some (JStr name) \<Rightarrow>
          \<lparr>ref_set = (\<lambda>data merge stored.
             (Inr (),
              AList.update name
                (if merge
                 then spread (case map_of stored name of None \<Rightarrow> [] | Some old \<Rightarrow> old)
                        (toFirestore converter data)
                 else toFirestore converter data)
                stored)),
           ref_get = (\<lambda>stored.
             (Inr (map_option
                (\<lambda>d. fromFirestore converter
                   \<lparr>snap_id = name, snap_parent_id = parent, snap_data = d\<rparr>)
                (map_of stored name)), stored)),
           ref_delete = (\<lambda>stored. (Inr JNull, AList.delete name stored))\<rparr>
      | _ \<Rightarrow> failing_reference)"

definition memory_collection :: "string \<Rightarrow> ('n memory, 'n) collection_object" where
  "memory_collection name =
     \<lparr>property = (\<lambda>k.
        if k = ''id'' \<or> k = ''path'' then Text name
        else if k = ''firestore'' then Object
        else if k = ''doc'' then Function
        else Undefined),
      withConverter = (\<lambda>converter.
        \<lparr>doc = memory_reference converter name,
         add = (\<lambda>data stored.
           let fresh = ''auto'' @ digits_of (int (length stored)) in
           (Inr (memory_reference converter name (Some (JStr fresh))),
            AList.update fresh (toFirestore converter data) stored))\<rparr>)\<rparr>"

text \<open>The same object without the property \<open>doc\<close>.\<close>

definition users_without_doc :: "(number memory, number) collection_object" where
  "users_without_doc =
     \<lparr>property = (\<lambda>k.
        if k = ''id'' \<or> k = ''path'' then Text ''users''
        else if k = ''firestore'' then Object
        else Undefined),
      withConverter = withConverter (memory_collection ''users'')\<rparr>"

text \<open>Caching methods that resolve at once and keep no state.\<close>

definition resolving_methods :: "('w, 'n) caching_arguments \<Rightarrow> ('w, 'n) cached_methods" where
  "resolving_methods args =
     \<lparr>m_findOneById = (\<lambda>a e. (Inr None, e)),
      m_findManyByIds = (\<lambda>a e. (Inr (map (\<lambda>_. None) (fst a)), e)),
      m_deleteFromCacheById = (\<lambda>a e. (Inr (), e)),
      m_primeLoader = (\<lambda>a e. (Inr (), e)),
      m_dataLoader = Some DataLoader,
      m_cache = arg_cache args,
      m_cachePrefix = ''firestore-users-''\<rparr>"

text \<open>
  The data source that the constructor returns for the collection \<open>users\<close> in memory,
  with a logger; \<open>users_service\<close> is that data source after \<open>initialize\<close>.
\<close>

definition users_source :: "(number memory, number) datasource" where
  "users_source =
     \<lparr>collection = withConverter (memory_collection ''users'') FirestoreConverter,
      context' = None,
      options = \<lparr>logger = True\<rparr>,
      findOneById = placeholderHandler,
      findManyByIds = placeholderHandler,
      deleteFromCacheById = placeholderHandler,
      primeLoader = placeholderHandler,
      dataLoader = None,
      cache = None,
      cachePrefix = None\<rparr>"

definition users_service :: "(number memory, number) datasource" where
  "users_service =
     initialize resolving_methods users_source \<lparr>config_context = None, config_cache = None\<rparr>"

definition empty_world :: "(number memory, number) world" where
  "empty_world = \<lparr>ext = [], calls = []\<rparr>"

text \<open>
  A query that returns every document of the collection; the snapshot's read time is a
  Timestamp.
\<close>

definition all_documents ::
  "(number memory, number) converted_collection \<Rightarrow>
   (number memory, number query_snapshot) effect" where
  "all_documents c stored =
     (Inr \<lparr>snap_docs = map (\<lambda>kv. fromFirestore FirestoreConverter
               \<lparr>snap_id = fst kv, snap_parent_id = ''users'', snap_data = snd kv\<rparr>) stored,
           snap_size = length stored,
           readTime = Timestamp (Whole 1690000100) (Whole 0)\<rparr>, stored)"

text \<open>
  Two more collections: one that cannot be reached, every operation of which throws, and
  one in which a write resolves but no document is ever found.
\<close>

definition unreachable_collection :: "('w, 'n) converted_collection" where
  "unreachable_collection =
     \<lparr>doc = (\<lambda>docId.
        \<lparr>ref_set = (\<lambda>data merge e. (Inl (Error ''UNAVAILABLE''), e)),
         ref_get = (\<lambda>e. (Inl (Error ''UNAVAILABLE''), e)),
         ref_delete = (\<lambda>e. (Inl (Error ''UNAVAILABLE''), e))\<rparr>),
      add = (\<lambda>data e. (Inl (Error ''UNAVAILABLE''), e))\<rparr>"

definition blank_reference :: "('w, 'n) document_reference" where
  "blank_reference =
     \<lparr>ref_set = (\<lambda>data merge e. (Inr (), e)),
      ref_get = (\<lambda>e. (Inr None, e)),
      ref_delete = (\<lambda>e. (Inr JNull, e))\<rparr>"

definition blank_collection :: "('w, 'n) converted_collection" where
  "blank_collection =
     \<lparr>doc = (\<lambda>docId. blank_reference), add = (\<lambda>data e. (Inr blank_reference, e))\<rparr>"

definition offline_service :: "(number memory, number) datasource" where
  "offline_service = users_service\<lparr>collection := unreachable_collection\<rparr>"

definition blank_service :: "(number memory, number) datasource" where
  "blank_service = users_service\<lparr>collection := blank_collection\<rparr>"

definition unreachable_query ::
  "('n memory, 'n) converted_collection \<Rightarrow> ('n memory, 'n query_snapshot) effect" where
  "unreachable_query c stored = (Inl (Error ''UNAVAILABLE''), stored)"

text \<open>
  A test double of the query: its snapshot has the documents and no read time
  (\<^verbatim>\<open>null\<close>).
\<close>

definition untimed_documents ::
  "(number memory, number) converted_collection \<Rightarrow>
   (number memory, number query_snapshot) effect" where
  "untimed_documents c stored =
     (Inr \<lparr>snap_docs = map (\<lambda>kv. fromFirestore FirestoreConverter
               \<lparr>snap_id = fst kv, snap_parent_id = ''users'', snap_data = snd kv\<rparr>) stored,
           snap_size = length stored,
           readTime = JNull\<rparr>, stored)"

text \<open>The data source \<open>users_service\<close> with a \<open>primeLoader\<close> that throws.\<close>

definition uncached_service :: "(number memory, number) datasource" where
  "uncached_service =
     users_service\<lparr>primeLoader := (\<lambda>a e. (Inl (Error ''cache unavailable''), e))\<rparr>"

section \<open>The calls of a method\<close>

text \<open>The calls to the store and to the caching methods that an action adds, in order.\<close>

definition is_debug :: "'n call \<Rightarrow> bool" where
  "is_debug c = (case c of Debug m \<Rightarrow> True | _ \<Rightarrow> False)"

definition calls_made :: "('w, 'n, 'a) action \<Rightarrow> ('w, 'n) world \<Rightarrow> 'n call list" where
  "calls_made m w = filter (\<lambda>c. \<not> is_debug c) (drop (length (calls w)) (calls (snd (m w))))"

text \<open>The store that holds the document \<open>ada\<close>, stripped of \<open>id\<close> and \<open>collection\<close>.\<close>

definition ada_world :: "(number memory, number) world" where
  "ada_world = \<lparr>ext = [(''42'', toFirestore FirestoreConverter ada)], calls = []\<rparr>"

section \<open>Properties of the codec\<close>

declare stringify.simps [simp del]

declare digits_of.simps [simp del]

subsection \<open>Splitting at colons\<close>

lemma js_split_nonempty: "js_split s sep \<noteq> []"
  by (induction s) (auto split: list.splits)

lemma js_split_no_sep: "sep \<notin> set s \<Longrightarrow> js_split s sep = [s]"
  by (induction s) auto

lemma js_split_append: "sep \<notin> set a \<Longrightarrow> js_split (a @ sep # b) sep = a # js_split b sep"
  by (induction a) auto

lemma hd_js_split: "hd (js_split s sep) = takeWhile (\<lambda>x. x \<noteq> sep) s"
proof (induction s)
  case Nil
  show ?case by simp
next
  case (Cons x xs)
  then show ?case
    using js_split_nonempty [of xs sep] by (cases "js_split xs sep") auto
qed

lemma takeWhile_no_sep: "sep \<notin> set p \<Longrightarrow> takeWhile (\<lambda>x. x \<noteq> sep) p = p"
  by (induction p) auto

lemma split_two_fields:
  "CHR '':'' \<notin> set a \<Longrightarrow> CHR '':'' \<notin> set b \<Longrightarrow>
   js_split (a @ '':'' @ b) CHR '':'' = [a, b]"
  using js_split_append [of "CHR '':''" a b] by (simp add: js_split_no_sep)

lemma element_Cons_0: "element (x # xs) 0 = Some x"
  by (simp add: element_def)

lemma element_Cons_Suc: "element (x # xs) (Suc i) = element xs i"
  by (simp add: element_def)

lemma split_Timestamp:
  "js_split (''$$Timestamp$$:'' @ rest) CHR '':'' = ''$$Timestamp$$'' # js_split rest CHR '':''"
  using js_split_append [of "CHR '':''" "''$$Timestamp$$''" rest] by simp

lemma split_GeoPoint:
  "js_split (''$$GeoPoint$$:'' @ rest) CHR '':'' = ''$$GeoPoint$$'' # js_split rest CHR '':''"
  using js_split_append [of "CHR '':''" "''$$GeoPoint$$''" rest] by simp

lemma split_DocumentReference:
  "js_split (''$$DocumentReference$$:'' @ rest) CHR '':'' =
     ''$$DocumentReference$$'' # js_split rest CHR '':''"
  using js_split_append [of "CHR '':''" "''$$DocumentReference$$''" rest] by simp

subsection \<open>The sentinel pattern\<close>

lemma starts_with_iff: "starts_with p s \<longleftrightarrow> (\<exists>r. s = p @ r)"
  unfolding starts_with_def by (metis append_eq_conv_conj)

lemma symbolMatch_Timestamp: "symbolMatch (''$$Timestamp$$:'' @ rest)"
  by (simp add: symbolMatch_def starts_with_def)

lemma symbolMatch_GeoPoint: "symbolMatch (''$$GeoPoint$$:'' @ rest)"
  by (simp add: symbolMatch_def starts_with_def)

lemma symbolMatch_DocumentReference: "symbolMatch (''$$DocumentReference$$:'' @ rest)"
  by (simp add: symbolMatch_def starts_with_def)

lemma symbolMatch_cases:
  "symbolMatch s \<longleftrightarrow>
     (\<exists>rest. s = ''$$Timestamp$$:'' @ rest \<or> s = ''$$GeoPoint$$:'' @ rest \<or>
        s = ''$$DocumentReference$$:'' @ rest)"
  unfolding symbolMatch_def starts_with_iff by blast

text \<open>A string that matches has at least two parts, so \<^verbatim>\<open>split[1]\<close> is defined.\<close>

lemma symbolMatch_two_parts: "symbolMatch s \<Longrightarrow> element (js_split s CHR '':'') 1 \<noteq> None"
proof -
  assume "symbolMatch s"
  then obtain rest where
    "s = ''$$Timestamp$$:'' @ rest \<or> s = ''$$GeoPoint$$:'' @ rest \<or>
     s = ''$$DocumentReference$$:'' @ rest"
    unfolding symbolMatch_cases by blast
  then obtain tag where "js_split s CHR '':'' = tag # js_split rest CHR '':''"
    using split_Timestamp [of rest] split_GeoPoint [of rest] split_DocumentReference [of rest]
    by metis
  then show ?thesis
    using js_split_nonempty [of rest "CHR '':''"] by (simp add: element_def)
qed

subsection \<open>The reviver\<close>

lemma reviver_matched:
  assumes "symbolMatch s" and "js_split s CHR '':'' = tag # parts"
  shows "reviverFactory rt lib c (JStr s) =
     (if tag = ''$$Timestamp$$'' then
        new_Timestamp lib (parseInt rt (element parts 0)) (parseInt rt (element parts 1))
      else if tag = ''$$DocumentReference$$'' then
        firestore_doc lib (coll_firestore c) (element parts 0)
      else if tag = ''$$GeoPoint$$'' then
        new_GeoPoint lib (parseFloat rt (element parts 0)) (parseFloat rt (element parts 1))
      else Inr (JStr s))"
  using assms
  by (simp add: reviverFactory_def Let_def element_Cons_0 element_Cons_Suc numeral_2_eq_2)

lemma reviver_Timestamp:
  "reviverFactory rt lib c (JStr (''$$Timestamp$$:'' @ rest)) =
     new_Timestamp lib (parseInt rt (element (js_split rest CHR '':'') 0))
                       (parseInt rt (element (js_split rest CHR '':'') 1))"
  using reviver_matched [OF symbolMatch_Timestamp split_Timestamp, of rt lib c rest] by simp

lemma reviver_GeoPoint:
  "reviverFactory rt lib c (JStr (''$$GeoPoint$$:'' @ rest)) =
     new_GeoPoint lib (parseFloat rt (element (js_split rest CHR '':'') 0))
                      (parseFloat rt (element (js_split rest CHR '':'') 1))"
  using reviver_matched [OF symbolMatch_GeoPoint split_GeoPoint, of rt lib c rest] by simp

lemma reviver_DocumentReference:
  "reviverFactory rt lib c (JStr (''$$DocumentReference$$:'' @ rest)) =
     firestore_doc lib (coll_firestore c) (Some (takeWhile (\<lambda>x. x \<noteq> CHR '':'') rest))"
proof -
  obtain p ps where ps: "js_split rest CHR '':'' = p # ps"
    using js_split_nonempty [of rest "CHR '':''"] by (cases "js_split rest CHR '':''") auto
  then have "p = takeWhile (\<lambda>x. x \<noteq> CHR '':'') rest"
    using hd_js_split [of rest "CHR '':''"] by simp
  then show ?thesis
    using reviver_matched [OF symbolMatch_DocumentReference split_DocumentReference,
        of rt lib c rest]
    by (simp add: ps element_Cons_0)
qed

lemma reviver_unmatched: "\<not> symbolMatch s \<Longrightarrow> reviverFactory rt lib c (JStr s) = Inr (JStr s)"
  by (simp add: reviverFactory_def)

lemma reviver_not_string: "(\<And>s. v \<noteq> JStr s) \<Longrightarrow> reviverFactory rt lib c v = Inr v"
  by (cases v) (auto simp add: reviverFactory_def)

subsection \<open>Reviving what the replacer wrote\<close>

lemma revive_replaced_Timestamp:
  assumes "reads_back rt (parseInt rt) a" and "reads_back rt (parseInt rt) b"
  shows "reviverFactory rt lib c (replacer rt (Timestamp a b)) = new_Timestamp lib a b"
proof -
  have "replacer rt (Timestamp a b) =
      JStr (''$$Timestamp$$:'' @ (toString rt a @ '':'' @ toString rt b))"
    by (simp add: replacer_def)
  moreover have "js_split (toString rt a @ '':'' @ toString rt b) CHR '':'' =
      [toString rt a, toString rt b]"
    using assms by (intro split_two_fields) (simp_all add: reads_back_def)
  ultimately show ?thesis
    using assms by (simp only: reviver_Timestamp) (simp add: element_def reads_back_def)
qed

lemma revive_replaced_GeoPoint:
  assumes "reads_back rt (parseFloat rt) a" and "reads_back rt (parseFloat rt) b"
  shows "reviverFactory rt lib c (replacer rt (GeoPoint a b)) = new_GeoPoint lib a b"
proof -
  have "replacer rt (GeoPoint a b) =
      JStr (''$$GeoPoint$$:'' @ (toString rt a @ '':'' @ toString rt b))"
    by (simp add: replacer_def)
  moreover have "js_split (toString rt a @ '':'' @ toString rt b) CHR '':'' =
      [toString rt a, toString rt b]"
    using assms by (intro split_two_fields) (simp_all add: reads_back_def)
  ultimately show ?thesis
    using assms by (simp only: reviver_GeoPoint) (simp add: element_def reads_back_def)
qed

lemma revive_replaced_DocumentReference:
  "reviverFactory rt lib c (replacer rt (DocumentReference fs p)) =
     firestore_doc lib (coll_firestore c) (Some (takeWhile (\<lambda>x. x \<noteq> CHR '':'') p))"
proof -
  have "replacer rt (DocumentReference fs p) = JStr (''$$DocumentReference$$:'' @ p)"
    by (simp add: replacer_def)
  then show ?thesis by (simp only: reviver_DocumentReference)
qed

subsection \<open>The walks\<close>

lemma stringify_JArr: "stringify rt (JArr xs) = JArr (map (stringify rt) xs)"
  by (simp add: stringify.simps [of rt "JArr xs"] replacer_def)

lemma stringify_JObj:
  "stringify rt (JObj fs) = JObj (map (\<lambda>kv. (fst kv, stringify rt (snd kv))) fs)"
  by (simp add: stringify.simps [of rt "JObj fs"] replacer_def)

lemma stringify_leaf:
  "stringify rt JNull = JNull"
  "stringify rt (JBool b) = JBool b"
  "stringify rt (JNum n) =
     (if isFinite rt n then JNum (readNumber rt (toString rt n)) else JNull)"
  "stringify rt (JStr s) = JStr s"
  by (simp_all add: stringify.simps replacer_def)

lemma stringify_tagged:
  "stringify rt (Timestamp a b) = replacer rt (Timestamp a b)"
  "stringify rt (GeoPoint a b) = replacer rt (GeoPoint a b)"
  "stringify rt (DocumentReference fs p) = replacer rt (DocumentReference fs p)"
  by (simp_all add: stringify.simps replacer_def)

lemma parse_replaced:
  "parse rt lib c (replacer rt (Timestamp a b)) =
     reviverFactory rt lib c (replacer rt (Timestamp a b))"
  "parse rt lib c (replacer rt (GeoPoint a b)) =
     reviverFactory rt lib c (replacer rt (GeoPoint a b))"
  "parse rt lib c (replacer rt (DocumentReference fs p)) =
     reviverFactory rt lib c (replacer rt (DocumentReference fs p))"
  by (simp_all add: replacer_def)



lemma collect_all: "(\<And>x. x \<in> set xs \<Longrightarrow> f x = Inr x) \<Longrightarrow> collect (map f xs) = Inr xs"
  by (induction xs) simp_all

subsection \<open>The whole-number runtime\<close>

text \<open>
  The runtime restricted to whole numbers reads back every number but the negative zero.
\<close>

lemma digit_value_digit: "(0::int) \<le> d \<Longrightarrow> d < 10 \<Longrightarrow> digit_value (char_of (48 + d)) = Some d"
  by (simp add: digit_value_def Let_def of_char_of)

lemma digit_not_space: "(0::int) \<le> d \<Longrightarrow> d < 10 \<Longrightarrow> \<not> is_space (char_of (48 + d))"
  by (simp add: is_space_def Let_def of_char_of)

lemma digit_not_sign:
  assumes "(0::int) \<le> d" and "d < 10"
  shows "char_of (48 + d) \<noteq> CHR '':''" and "char_of (48 + d) \<noteq> CHR ''-''"
    and "char_of (48 + d) \<noteq> CHR ''+''"
proof -
  have v: "(of_char (char_of (48 + d)) :: int) = 48 + d"
    using assms by (simp add: of_char_of)
  show "char_of (48 + d) \<noteq> CHR '':''"
  proof
    assume "char_of (48 + d) = CHR '':''"
    then have "(of_char (char_of (48 + d)) :: int) = of_char CHR '':''" by simp
    with v assms show False by simp
  qed
  show "char_of (48 + d) \<noteq> CHR ''-''"
  proof
    assume "char_of (48 + d) = CHR ''-''"
    then have "(of_char (char_of (48 + d)) :: int) = of_char CHR ''-''" by simp
    with v assms show False by simp
  qed
  show "char_of (48 + d) \<noteq> CHR ''+''"
  proof
    assume "char_of (48 + d) = CHR ''+''"
    then have "(of_char (char_of (48 + d)) :: int) = of_char CHR ''+''" by simp
    with v assms show False by simp
  qed
qed

lemma digits_of_nonempty: "digits_of n \<noteq> []"
  by (subst digits_of.simps) simp

lemma no_colon_in_digits: "0 \<le> n \<Longrightarrow> CHR '':'' \<notin> set (digits_of n)"
proof (induction n rule: digits_of.induct)
  case (1 n)
  show ?case
  proof (cases "n < 10")
    case True
    with 1 show ?thesis
      using digit_not_sign(1) [of n] by (subst digits_of.simps) auto
  next
    case False
    with 1 have "CHR '':'' \<notin> set (digits_of (n div 10))" by simp
    moreover have "char_of (48 + n mod 10) \<noteq> CHR '':''"
      using digit_not_sign(1) [of "n mod 10"] by simp
    ultimately show ?thesis
      using False by (subst digits_of.simps) auto
  qed
qed

lemma hd_digits_of:
  "0 \<le> n \<Longrightarrow> \<exists>d::int. 0 \<le> d \<and> d < 10 \<and> hd (digits_of n) = char_of (48 + d)"
proof (induction n rule: digits_of.induct)
  case (1 n)
  show ?case
  proof (cases "n < 10")
    case True
    with 1 show ?thesis by (subst digits_of.simps) auto
  next
    case False
    with 1 obtain d :: int
      where "0 \<le> d" "d < 10" "hd (digits_of (n div 10)) = char_of (48 + d)"
      by fastforce
    then show ?thesis
      using False digits_of_nonempty [of "n div 10"]
      by (subst digits_of.simps) auto
  qed
qed

lemma leading_digits_of:
  "0 \<le> n \<Longrightarrow>
   \<exists>k. leading_digits acc (digits_of n @ rest) =
     leading_digits (Some ((case acc of None \<Rightarrow> 0 | Some a \<Rightarrow> a) * 10 ^ k + n)) rest"
proof (induction n arbitrary: acc rest rule: digits_of.induct)
  case (1 n)
  show ?case
  proof (cases "n < 10")
    case True
    with 1 have "leading_digits acc (digits_of n @ rest) =
        leading_digits (Some ((case acc of None \<Rightarrow> 0 | Some a \<Rightarrow> a) * 10 ^ 1 + n)) rest"
      by (subst digits_of.simps) (simp add: digit_value_digit mult.commute)
    then show ?thesis by blast
  next
    case False
    let ?c = "char_of (48 + n mod 10)"
    have split: "digits_of n @ rest = digits_of (n div 10) @ (?c # rest)"
      using False by (subst digits_of.simps) simp
    from 1 False obtain k where
      "leading_digits acc (digits_of (n div 10) @ (?c # rest)) =
         leading_digits (Some ((case acc of None \<Rightarrow> 0 | Some a \<Rightarrow> a) * 10 ^ k + n div 10))
           (?c # rest)"
      by (metis div_int_pos_iff zero_le_numeral)
    then have "leading_digits acc (digits_of n @ rest) =
        leading_digits (Some ((case acc of None \<Rightarrow> 0 | Some a \<Rightarrow> a) * 10 ^ Suc k + n)) rest"
      unfolding split by (simp add: digit_value_digit algebra_simps)
    then show ?thesis by blast
  qed
qed

lemma parse_digits_of: "0 \<le> n \<Longrightarrow> leading_digits None (digits_of n) = Some n"
  using leading_digits_of [of n None "[]"] by auto

lemma dropWhile_digits_of: "0 \<le> n \<Longrightarrow> dropWhile is_space (digits_of n) = digits_of n"
  using hd_digits_of [of n] digits_of_nonempty [of n] digit_not_space
  by (cases "digits_of n") auto

lemma whole_runtime_reads_back:
  assumes "x \<noteq> NegativeZero"
  shows "reads_back whole_runtime (parseInt whole_runtime) x"
    and "reads_back whole_runtime (parseFloat whole_runtime) x"
    and "readNumber whole_runtime (toString whole_runtime x) = x"
proof -
  have "CHR '':'' \<notin> set (show_whole x) \<and> parse_whole (Some (show_whole x)) = x"
  proof (cases x)
    case NaN
    then show ?thesis
      by (simp add: show_whole_def parse_whole_def is_space_def digit_value_def)
  next
    case NegativeZero
    with assms show ?thesis by simp
  next
    case (Whole i)
    show ?thesis
    proof (cases "i < 0")
      case True
      then have "parse_whole (Some (CHR ''-'' # digits_of (- i))) = Whole i"
        by (simp add: parse_whole_def is_space_def parse_digits_of)
      with True Whole show ?thesis
        using no_colon_in_digits [of "- i"] by (simp add: show_whole_def)
    next
      case False
      obtain d :: int where d: "0 \<le> d" "d < 10" "hd (digits_of i) = char_of (48 + d)"
        using hd_digits_of [of i] False by auto
      have "parse_whole (Some (digits_of i)) = Whole i"
        using False d digit_not_sign [of d] digits_of_nonempty [of i]
        by (simp add: parse_whole_def Let_def dropWhile_digits_of parse_digits_of)
      with False Whole show ?thesis
        using no_colon_in_digits [of i] by (simp add: show_whole_def)
    qed
  qed
  then show "reads_back whole_runtime (parseInt whole_runtime) x"
    and "reads_back whole_runtime (parseFloat whole_runtime) x"
    and "readNumber whole_runtime (toString whole_runtime x) = x"
    by (simp_all add: reads_back_def whole_runtime_def)
qed

subsection \<open>Decoding\<close>




subsection \<open>Re-encoding\<close>

text \<open>
  The sentinel of a timestamp or geo-point whose numbers the runtime reads back and the
  library accepts, and of a reference whose path holds no colon and is returned by the
  library as it is, is reproduced by decoding and encoding again.
\<close>

lemma reencode_stable:
  "reads_back rt (parseInt rt) a \<Longrightarrow> reads_back rt (parseInt rt) b \<Longrightarrow>
   timestamp_rejected lib a b = None \<Longrightarrow>
     map_sum id (replacer rt) (reviverFactory rt lib c (replacer rt (Timestamp a b))) =
       Inr (replacer rt (Timestamp a b))"
  "reads_back rt (parseFloat rt) a \<Longrightarrow> reads_back rt (parseFloat rt) b \<Longrightarrow>
   geopoint_rejected lib a b = None \<Longrightarrow>
     map_sum id (replacer rt) (reviverFactory rt lib c (replacer rt (GeoPoint a b))) =
       Inr (replacer rt (GeoPoint a b))"
  "CHR '':'' \<notin> set p \<Longrightarrow> document_path lib (Some p) = Inr p \<Longrightarrow>
     map_sum id (replacer rt) (reviverFactory rt lib c (replacer rt (DocumentReference fs p))) =
       Inr (replacer rt (DocumentReference fs p))"
  by (simp_all add: revive_replaced_Timestamp revive_replaced_GeoPoint
      revive_replaced_DocumentReference takeWhile_no_sep new_Timestamp_def new_GeoPoint_def
      firestore_doc_def)
     (simp add: replacer_def)

text \<open>
  C4.  The document \<open>a:b\<close> of the collection \<open>users\<close> has the path \<open>users/a:b\<close>.  The
  encoder writes its reference as \<open>$$DocumentReference$$:users/a:b\<close>; the reviver splits
  that string at every colon and keeps the second part only, so it asks the library for
  the document \<open>users/a\<close>.  The library, which returns the path \<open>users/a\<close> as it is,
  returns the reference to \<open>users/a\<close>, and encoding that gives
  \<open>$$DocumentReference$$:users/a\<close>, not the string that was decoded.
\<close>

theorem reference_with_colon_reencoded:
  "replacer rt (DocumentReference (coll_firestore c) ''users/a:b'') =
     JStr ''$$DocumentReference$$:users/a:b'' \<and>
   reviverFactory rt lib c (JStr ''$$DocumentReference$$:users/a:b'') =
     firestore_doc lib (coll_firestore c) (Some ''users/a'') \<and>
   (document_path lib (Some ''users/a'') = Inr ''users/a'' \<longrightarrow>
      reviverFactory rt lib c (JStr ''$$DocumentReference$$:users/a:b'') =
        Inr (DocumentReference (coll_firestore c) ''users/a'') \<and>
      map_sum id (replacer rt)
          (reviverFactory rt lib c (JStr ''$$DocumentReference$$:users/a:b'')) =
        Inr (JStr ''$$DocumentReference$$:users/a''))"
proof -
  have "reviverFactory rt lib c (JStr (''$$DocumentReference$$:'' @ ''users/a:b'')) =
     firestore_doc lib (coll_firestore c) (Some ''users/a'')"
    by (simp only: reviver_DocumentReference) simp
  then show ?thesis by (simp add: replacer_def firestore_doc_def)
qed

theorem reference_with_colon_reencoded_witness:
  "document_path client (Some ''users/a'') = Inr ''users/a'' \<and>
   replacer whole_runtime (DocumentReference ''app'' ''users/a:b'') =
     JStr ''$$DocumentReference$$:users/a:b'' \<and>
   reviverFactory whole_runtime client users (JStr ''$$DocumentReference$$:users/a:b'') =
     Inr (DocumentReference ''app'' ''users/a'') \<and>
   map_sum id (replacer whole_runtime)
       (reviverFactory whole_runtime client users (JStr ''$$DocumentReference$$:users/a:b'')) =
     Inr (JStr ''$$DocumentReference$$:users/a'')"
proof -
  have accepted: "document_path client (Some ''users/a'') = Inr ''users/a''"
    by code_simp
  have app: "coll_firestore users = ''app''"
    by (simp add: users_def)
  have written: "replacer whole_runtime (DocumentReference ''app'' ''users/a:b'') =
     JStr ''$$DocumentReference$$:users/a:b''"
    by (simp add: replacer_def)
  note decoded =
    reference_with_colon_reencoded [of whole_runtime users client,
      THEN conjunct2, THEN conjunct2, THEN mp, OF accepted, unfolded app]
  show ?thesis
    by (intro conjI accepted written decoded [THEN conjunct1] decoded [THEN conjunct2])
qed

subsection \<open>The round trip\<close>

text \<open>
  C1, as the code has it.  For every supported value (\<open>supported\<close>: no plain string
  matches the sentinel pattern; every number is finite and is the number read from its
  text; the numbers of timestamps and geo-points are printed without a colon and read
  back by \<^verbatim>\<open>parseInt\<close> and \<^verbatim>\<open>parseFloat\<close>, and the library's constructors accept
  them; every reference belongs to the Firestore instance of the reviver's collection,
  its path holds no colon, and the library returns that path for it), decoding the
  encoding of the value returns the value; a reference comes back with its path.
\<close>

theorem round_trip: "supported rt lib c v \<Longrightarrow> parse rt lib c (stringify rt v) = Inr v"
proof (induction rt lib c v rule: supported.induct)
  case (1 rt lib c s)
  then show ?case by (simp add: stringify_leaf reviver_unmatched)
next
  case (2 rt lib c n)
  then show ?case by (simp add: stringify_leaf reviverFactory_def)
next
  case (3 rt lib c seconds nanoseconds)
  then show ?case
    by (simp add: stringify_tagged parse_replaced revive_replaced_Timestamp new_Timestamp_def)
next
  case (4 rt lib c latitude longitude)
  then show ?case
    by (simp add: stringify_tagged parse_replaced revive_replaced_GeoPoint new_GeoPoint_def)
next
  case (5 rt lib c fs path)
  then show ?case
    by (simp add: stringify_tagged parse_replaced revive_replaced_DocumentReference
        takeWhile_no_sep firestore_doc_def)
next
  case (6 rt lib c xs)
  then have "collect (map (\<lambda>x. parse rt lib c (stringify rt x)) xs) = Inr xs"
    by (intro collect_all) simp
  then show ?case by (simp add: stringify_JArr reviverFactory_def comp_def)
next
  case (7 rt lib c fs)
  then have each: "parse rt lib c (stringify rt (snd kv)) = Inr (snd kv)" if "kv \<in> set fs" for kv
    using that by simp
  have members:
    "map (\<lambda>kv. case parse rt lib c (snd kv) of Inl e \<Rightarrow> Inl e | Inr y \<Rightarrow> Inr (fst kv, y))
       (map (\<lambda>kv. (fst kv, stringify rt (snd kv))) fs) = map Inr fs"
    by (simp add: each)
  have collected: "collect (map Inr fs) = Inr fs"
    by (intro collect_all) simp
  have "parse rt lib c (stringify rt (JObj fs)) = reviverFactory rt lib c (JObj fs)"
    by (simp only: stringify_JObj parse.simps members collected sum.case)
  then show ?case by (simp add: reviverFactory_def)
qed (simp_all add: stringify_leaf reviverFactory_def)

lemma ada_supported: "supported whole_runtime client users (JObj ada)"
  by code_simp

theorem round_trip_witness:
  "supported whole_runtime client users (JObj ada) \<and>
   stringify whole_runtime (JObj ada) =
     JObj [(''id'', JStr ''42''), (''collection'', JStr ''users''), (''name'', JStr ''Ada''),
       (''lastSeen'', JStr ''$$Timestamp$$:1690000000:0''),
       (''home'', JStr ''$$GeoPoint$$:52:-13''),
       (''friends'', JArr [JStr ''$$DocumentReference$$:users/7''])] \<and>
   parse whole_runtime client users (stringify whole_runtime (JObj ada)) = Inr (JObj ada)"
proof -
  have "stringify whole_runtime (JObj ada) =
     JObj [(''id'', JStr ''42''), (''collection'', JStr ''users''), (''name'', JStr ''Ada''),
       (''lastSeen'', JStr ''$$Timestamp$$:1690000000:0''),
       (''home'', JStr ''$$GeoPoint$$:52:-13''),
       (''friends'', JArr [JStr ''$$DocumentReference$$:users/7''])]"
    by code_simp
  then show ?thesis
    using ada_supported round_trip [OF ada_supported] by simp
qed

text \<open>
  C1, as stated, fails on six documents of supported shape.  A plain string that matches
  the sentinel pattern is left as it is by the encoder, and the decoder returns a
  Timestamp in its place.  The number NaN is written as \<^verbatim>\<open>null\<close>.  The negative zero
  is written as \<open>0\<close> and read as zero, as a number of the document and as the latitude
  of a geo-point, which the library accepts.  A reference of another Firestore instance
  comes back as a reference of the instance of the reviver's collection.  A reference
  whose path holds a colon comes back with the path cut at the colon.
\<close>

theorem values_not_round_tripped:
  "parse whole_runtime client users
     (stringify whole_runtime (JObj [(''note'', JStr ''$$Timestamp$$:1:2'')])) =
     Inr (JObj [(''note'', Timestamp (Whole 1) (Whole 2))]) \<and>
   JObj [(''note'', Timestamp (Whole 1) (Whole 2))] \<noteq>
     JObj [(''note'', JStr ''$$Timestamp$$:1:2'')] \<and>
   parse whole_runtime client users
     (stringify whole_runtime (JObj [(''score'', JNum NaN)])) =
     Inr (JObj [(''score'', JNull)]) \<and>
   JObj [(''score'', JNull)] \<noteq> JObj [(''score'', JNum NaN)] \<and>
   parse whole_runtime client users
     (stringify whole_runtime (JObj [(''delta'', JNum NegativeZero)])) =
     Inr (JObj [(''delta'', JNum (Whole 0))]) \<and>
   JObj [(''delta'', JNum (Whole 0))] \<noteq> JObj [(''delta'', JNum NegativeZero)] \<and>
   geopoint_rejected client NegativeZero (Whole 0) = None \<and>
   parse whole_runtime client users
     (stringify whole_runtime (JObj [(''home'', GeoPoint NegativeZero (Whole 0))])) =
     Inr (JObj [(''home'', GeoPoint (Whole 0) (Whole 0))]) \<and>
   JObj [(''home'', GeoPoint (Whole 0) (Whole 0))] \<noteq>
     JObj [(''home'', GeoPoint NegativeZero (Whole 0))] \<and>
   parse whole_runtime client users
     (stringify whole_runtime (JObj [(''friend'', DocumentReference ''archive'' ''users/7'')])) =
     Inr (JObj [(''friend'', DocumentReference ''app'' ''users/7'')]) \<and>
   JObj [(''friend'', DocumentReference ''app'' ''users/7'')] \<noteq>
     (JObj [(''friend'', DocumentReference ''archive'' ''users/7'')] :: number jsvalue) \<and>
   parse whole_runtime client users
     (stringify whole_runtime (JObj [(''friend'', DocumentReference ''app'' ''users/a:b'')])) =
     Inr (JObj [(''friend'', DocumentReference ''app'' ''users/a'')]) \<and>
   JObj [(''friend'', DocumentReference ''app'' ''users/a'')] \<noteq>
     (JObj [(''friend'', DocumentReference ''app'' ''users/a:b'')] :: number jsvalue)"
proof -
  have string: "parse whole_runtime client users
     (stringify whole_runtime (JObj [(''note'', JStr ''$$Timestamp$$:1:2'')])) =
     Inr (JObj [(''note'', Timestamp (Whole 1) (Whole 2))])"
    by code_simp
  have not_finite: "parse whole_runtime client users
     (stringify whole_runtime (JObj [(''score'', JNum NaN)])) =
     Inr (JObj [(''score'', JNull)])"
    by code_simp
  have zero: "parse whole_runtime client users
     (stringify whole_runtime (JObj [(''delta'', JNum NegativeZero)])) =
     Inr (JObj [(''delta'', JNum (Whole 0))])"
    by code_simp
  have accepted: "geopoint_rejected client NegativeZero (Whole 0) = None"
    by code_simp
  have latitude: "parse whole_runtime client users
     (stringify whole_runtime (JObj [(''home'', GeoPoint NegativeZero (Whole 0))])) =
     Inr (JObj [(''home'', GeoPoint (Whole 0) (Whole 0))])"
    by code_simp
  have moved: "parse whole_runtime client users
     (stringify whole_runtime (JObj [(''friend'', DocumentReference ''archive'' ''users/7'')])) =
     Inr (JObj [(''friend'', DocumentReference ''app'' ''users/7'')])"
    by code_simp
  have colon: "parse whole_runtime client users
     (stringify whole_runtime (JObj [(''friend'', DocumentReference ''app'' ''users/a:b'')])) =
     Inr (JObj [(''friend'', DocumentReference ''app'' ''users/a'')])"
    by code_simp
  have differ:
    "JObj [(''note'', Timestamp (Whole 1) (Whole 2))] \<noteq>
       JObj [(''note'', JStr ''$$Timestamp$$:1:2'')]"
    "JObj [(''score'', JNull)] \<noteq> JObj [(''score'', JNum NaN)]"
    "JObj [(''delta'', JNum (Whole 0))] \<noteq> JObj [(''delta'', JNum NegativeZero)]"
    "JObj [(''home'', GeoPoint (Whole 0) (Whole 0))] \<noteq>
       JObj [(''home'', GeoPoint NegativeZero (Whole 0))]"
    "JObj [(''friend'', DocumentReference ''app'' ''users/7'')] \<noteq>
       (JObj [(''friend'', DocumentReference ''archive'' ''users/7'')] :: number jsvalue)"
    "JObj [(''friend'', DocumentReference ''app'' ''users/a'')] \<noteq>
       (JObj [(''friend'', DocumentReference ''app'' ''users/a:b'')] :: number jsvalue)"
    by simp_all
  show ?thesis
    by (intro conjI string not_finite zero accepted latitude moved colon differ)
qed

section \<open>Properties of the converter\<close>

lemma keys_spread: "fst ` set (spread obj src) = fst ` set obj \<union> fst ` set src"
  unfolding spread_def
  by (induction src arbitrary: obj) (auto simp: dom_update)

lemma map_of_filter_keys:
  "map_of (filter (\<lambda>kv. P (fst kv)) xs) k = (if P k then map_of xs k else None)"
  by (induction xs) auto

lemma map_of_spread:
  "map_of (spread obj src) k =
     (case map_of (rev src) k of Some v \<Rightarrow> Some v | None \<Rightarrow> map_of obj k)"
  unfolding spread_def
proof (induction src arbitrary: obj)
  case Nil
  show ?case by simp
next
  case (Cons kv src)
  show ?case
    by (simp add: Cons update_conv' map_of_append map_add_def split: option.splits)
qed

text \<open>
  C3.  A document that \<open>fromFirestore\<close> returns has the fields \<open>id\<close> and \<open>collection\<close>;
  what \<open>toFirestore\<close> returns has neither, and has every other field of the document
  with its value.
\<close>

theorem converter_library_fields:
  "''id'' \<in> fst ` set (fromFirestore FirestoreConverter snap) \<and>
   ''collection'' \<in> fst ` set (fromFirestore FirestoreConverter snap) \<and>
   ''id'' \<notin> fst ` set (toFirestore FirestoreConverter data) \<and>
   ''collection'' \<notin> fst ` set (toFirestore FirestoreConverter data) \<and>
   map_of (toFirestore FirestoreConverter data) =
     (\<lambda>k. if k = ''id'' \<or> k = ''collection'' then None else map_of data k)"
proof -
  have "map_of (toFirestore FirestoreConverter data) k =
      (if k = ''id'' \<or> k = ''collection'' then None else map_of data k)" for k
    using map_of_filter_keys [of "\<lambda>x. x \<noteq> ''id'' \<and> x \<noteq> ''collection''" data k]
    by (simp add: FirestoreConverter_def)
  then have "map_of (toFirestore FirestoreConverter data) =
      (\<lambda>k. if k = ''id'' \<or> k = ''collection'' then None else map_of data k)"
    by (rule ext)
  moreover have "''id'' \<notin> fst ` set (toFirestore FirestoreConverter data)"
    "''collection'' \<notin> fst ` set (toFirestore FirestoreConverter data)"
    by (auto simp: FirestoreConverter_def)
  moreover have "''id'' \<in> fst ` set (fromFirestore FirestoreConverter snap)"
    "''collection'' \<in> fst ` set (fromFirestore FirestoreConverter snap)"
    by (simp_all add: FirestoreConverter_def keys_spread)
  ultimately show ?thesis by blast
qed


section \<open>Properties of the data source\<close>

lemmas action_defs =
  andThen_def await_def return_def throw_def debug_def calls_made_def is_debug_def

subsection \<open>deleteOne\<close>

lemma deleteOne_deleted:
  assumes "ref_delete (doc (collection this) (Some (JStr docId))) (ext w) = (Inr response, e1)"
  shows "calls_made (deleteOne this docId) w =
      [DocDelete (Some (JStr docId)), DeleteFromCacheById docId]"
    and "ext (snd (deleteOne this docId w)) = snd (deleteFromCacheById this docId e1)"
  using assms
  by (simp_all add: deleteOne_def action_defs split: prod.splits sum.splits)

lemma deleteOne_failed:
  assumes "ref_delete (doc (collection this) (Some (JStr docId))) (ext w) = (Inl err, e1)"
  shows "calls_made (deleteOne this docId) w = [DocDelete (Some (JStr docId))]"
    and "fst (deleteOne this docId w) = Inl err"
  using assms
  by (simp_all add: deleteOne_def action_defs split: prod.splits sum.splits)

subsection \<open>updateOne and updateOnePartial\<close>

lemma updateOne_primes:
  assumes "ref_set (doc (collection this) (map_of data ''id'')) data False (ext w) = (Inr (), e1)"
    and "ref_get (doc (collection this) (map_of data ''id'')) e1 = (Inr (Some r), e2)"
  shows "calls_made (updateOne this data) w =
      [DocSet (map_of data ''id'') data False, DocGet (map_of data ''id''),
       PrimeLoader (One r) None]"
    and "ext (snd (updateOne this data w)) = snd (primeLoader this (One r, None) e2)"
  using assms
  by (simp_all add: updateOne_def action_defs split: prod.splits sum.splits)

lemma updateOne_no_document:
  assumes "ref_set (doc (collection this) (map_of data ''id'')) data False (ext w) = (Inr (), e1)"
    and "ref_get (doc (collection this) (map_of data ''id'')) e1 = (Inr None, e2)"
  shows "calls_made (updateOne this data) w =
      [DocSet (map_of data ''id'') data False, DocGet (map_of data ''id'')]"
    and "fst (updateOne this data w) = Inr None"
  using assms
  by (simp_all add: updateOne_def action_defs split: prod.splits sum.splits)

lemma updateOne_failed:
  assumes "ref_set (doc (collection this) (map_of data ''id'')) data False (ext w) = (Inl err, e1)"
  shows "calls_made (updateOne this data) w = [DocSet (map_of data ''id'') data False]"
    and "fst (updateOne this data w) = Inl err"
  using assms
  by (simp_all add: updateOne_def action_defs split: prod.splits sum.splits)

lemma updateOnePartial_primes:
  assumes "ref_set (doc (collection this) (Some (JStr docId))) data True (ext w) = (Inr (), e1)"
    and "ref_get (doc (collection this) (Some (JStr docId))) e1 = (Inr (Some r), e2)"
  shows "calls_made (updateOnePartial this docId data) w =
      [DocSet (Some (JStr docId)) data True, DocGet (Some (JStr docId)),
       PrimeLoader (One r) None]"
    and "ext (snd (updateOnePartial this docId data w)) =
      snd (primeLoader this (One r, None) e2)"
  using assms
  by (simp_all add: updateOnePartial_def action_defs split: prod.splits sum.splits)

subsection \<open>createOne\<close>

lemma createOne_primes:
  assumes "''id'' \<notin> fst ` set newDoc"
    and "add (collection this) newDoc (ext w) = (Inr dRef, e1)"
    and "ref_get dRef e1 = (Inr (Some r), e2)"
  shows "calls_made (createOne this newDoc ttl) w =
      [Add newDoc, AddedGet, PrimeLoader (One r) ttl]"
    and "ext (snd (createOne this newDoc ttl w)) = snd (primeLoader this (One r, ttl) e2)"
  using assms
  by (simp_all add: createOne_def action_defs split: prod.splits sum.splits)

lemma createOne_updates: "''id'' \<in> fst ` set newDoc \<Longrightarrow> createOne this newDoc ttl = updateOne this newDoc"
  by (simp add: createOne_def)

text \<open>
  C6.  Each mutating operation calls the store first and the caching method after it, on
  the state the store left.  \<open>deleteOne\<close>: when the store's delete resolves, the calls are
  the delete and then \<open>deleteFromCacheById\<close> of the id; when it throws, the error is
  thrown on and no caching method is called.  \<open>updateOne\<close>, \<open>updateOnePartial\<close> and
  \<open>createOne\<close> (for a document without \<open>id\<close>; with one it is \<open>updateOne\<close>): when the write
  resolves and the read that follows returns a document, the calls are the write, the
  read and then \<open>primeLoader\<close> of that document; \<open>updateOne\<close> calls no caching method when
  the write throws or the read returns no document.
\<close>

theorem store_then_cache:
  "(ref_delete (doc (collection this) (Some (JStr docId))) (ext w) = (Inr response, e1) \<longrightarrow>
      calls_made (deleteOne this docId) w =
        [DocDelete (Some (JStr docId)), DeleteFromCacheById docId] \<and>
      ext (snd (deleteOne this docId w)) = snd (deleteFromCacheById this docId e1)) \<and>
   (ref_delete (doc (collection this) (Some (JStr docId))) (ext w) = (Inl err, e1) \<longrightarrow>
      calls_made (deleteOne this docId) w = [DocDelete (Some (JStr docId))] \<and>
      fst (deleteOne this docId w) = Inl err) \<and>
   (ref_set (doc (collection this) (map_of data ''id'')) data False (ext w) = (Inr (), e1) \<and>
    ref_get (doc (collection this) (map_of data ''id'')) e1 = (Inr (Some r), e2) \<longrightarrow>
      calls_made (updateOne this data) w =
        [DocSet (map_of data ''id'') data False, DocGet (map_of data ''id''),
         PrimeLoader (One r) None] \<and>
      ext (snd (updateOne this data w)) = snd (primeLoader this (One r, None) e2)) \<and>
   (ref_set (doc (collection this) (map_of data ''id'')) data False (ext w) = (Inr (), e1) \<and>
    ref_get (doc (collection this) (map_of data ''id'')) e1 = (Inr None, e2) \<longrightarrow>
      calls_made (updateOne this data) w =
        [DocSet (map_of data ''id'') data False, DocGet (map_of data ''id'')] \<and>
      fst (updateOne this data w) = Inr None) \<and>
   (ref_set (doc (collection this) (map_of data ''id'')) data False (ext w) = (Inl err, e1) \<longrightarrow>
      calls_made (updateOne this data) w = [DocSet (map_of data ''id'') data False] \<and>
      fst (updateOne this data w) = Inl err) \<and>
   (ref_set (doc (collection this) (Some (JStr docId))) data True (ext w) = (Inr (), e1) \<and>
    ref_get (doc (collection this) (Some (JStr docId))) e1 = (Inr (Some r), e2) \<longrightarrow>
      calls_made (updateOnePartial this docId data) w =
        [DocSet (Some (JStr docId)) data True, DocGet (Some (JStr docId)),
         PrimeLoader (One r) None] \<and>
      ext (snd (updateOnePartial this docId data w)) =
        snd (primeLoader this (One r, None) e2)) \<and>
   (''id'' \<notin> fst ` set newDoc \<and>
    add (collection this) newDoc (ext w) = (Inr dRef, e1) \<and>
    ref_get dRef e1 = (Inr (Some r), e2) \<longrightarrow>
      calls_made (createOne this newDoc ttl) w =
        [Add newDoc, AddedGet, PrimeLoader (One r) ttl] \<and>
      ext (snd (createOne this newDoc ttl w)) = snd (primeLoader this (One r, ttl) e2)) \<and>
   (''id'' \<in> fst ` set newDoc \<longrightarrow> createOne this newDoc ttl = updateOne this newDoc)"
proof -
  have deleted:
    "ref_delete (doc (collection this) (Some (JStr docId))) (ext w) = (Inr response, e1) \<longrightarrow>
      calls_made (deleteOne this docId) w =
        [DocDelete (Some (JStr docId)), DeleteFromCacheById docId] \<and>
      ext (snd (deleteOne this docId w)) = snd (deleteFromCacheById this docId e1)"
    using deleteOne_deleted [of this docId w response e1] by blast
  have not_deleted:
    "ref_delete (doc (collection this) (Some (JStr docId))) (ext w) = (Inl err, e1) \<longrightarrow>
      calls_made (deleteOne this docId) w = [DocDelete (Some (JStr docId))] \<and>
      fst (deleteOne this docId w) = Inl err"
    using deleteOne_failed [of this docId w err e1] by blast
  have updated:
    "ref_set (doc (collection this) (map_of data ''id'')) data False (ext w) = (Inr (), e1) \<and>
     ref_get (doc (collection this) (map_of data ''id'')) e1 = (Inr (Some r), e2) \<longrightarrow>
      calls_made (updateOne this data) w =
        [DocSet (map_of data ''id'') data False, DocGet (map_of data ''id''),
         PrimeLoader (One r) None] \<and>
      ext (snd (updateOne this data w)) = snd (primeLoader this (One r, None) e2)"
    using updateOne_primes [of this data w e1 r e2] by blast
  have no_document:
    "ref_set (doc (collection this) (map_of data ''id'')) data False (ext w) = (Inr (), e1) \<and>
     ref_get (doc (collection this) (map_of data ''id'')) e1 = (Inr None, e2) \<longrightarrow>
      calls_made (updateOne this data) w =
        [DocSet (map_of data ''id'') data False, DocGet (map_of data ''id'')] \<and>
      fst (updateOne this data w) = Inr None"
    using updateOne_no_document [of this data w e1 e2] by blast
  have not_updated:
    "ref_set (doc (collection this) (map_of data ''id'')) data False (ext w) = (Inl err, e1) \<longrightarrow>
      calls_made (updateOne this data) w = [DocSet (map_of data ''id'') data False] \<and>
      fst (updateOne this data w) = Inl err"
    using updateOne_failed [of this data w err e1] by blast
  have merged:
    "ref_set (doc (collection this) (Some (JStr docId))) data True (ext w) = (Inr (), e1) \<and>
     ref_get (doc (collection this) (Some (JStr docId))) e1 = (Inr (Some r), e2) \<longrightarrow>
      calls_made (updateOnePartial this docId data) w =
        [DocSet (Some (JStr docId)) data True, DocGet (Some (JStr docId)),
         PrimeLoader (One r) None] \<and>
      ext (snd (updateOnePartial this docId data w)) =
        snd (primeLoader this (One r, None) e2)"
    using updateOnePartial_primes [of this docId data w e1 r e2] by blast
  have created:
    "''id'' \<notin> fst ` set newDoc \<and>
     add (collection this) newDoc (ext w) = (Inr dRef, e1) \<and>
     ref_get dRef e1 = (Inr (Some r), e2) \<longrightarrow>
      calls_made (createOne this newDoc ttl) w =
        [Add newDoc, AddedGet, PrimeLoader (One r) ttl] \<and>
      ext (snd (createOne this newDoc ttl w)) = snd (primeLoader this (One r, ttl) e2)"
    using createOne_primes [of newDoc this w dRef e1 r e2 ttl] by blast
  have with_id: "''id'' \<in> fst ` set newDoc \<longrightarrow> createOne this newDoc ttl = updateOne this newDoc"
    using createOne_updates [of newDoc this ttl] by blast
  show ?thesis
    by (intro conjI deleted not_deleted updated no_document not_updated merged created with_id)
qed


theorem store_then_cache_witness:
  "ref_delete (doc (collection users_service) (Some (JStr ''42''))) (ext ada_world) =
     (Inr JNull, []) \<and>
   calls_made (deleteOne users_service ''42'') ada_world =
     [DocDelete (Some (JStr ''42'')), DeleteFromCacheById ''42''] \<and>
   ref_delete (doc (collection offline_service) (Some (JStr ''42''))) (ext ada_world) =
     (Inl (Error ''UNAVAILABLE''), ext ada_world) \<and>
   calls_made (deleteOne offline_service ''42'') ada_world = [DocDelete (Some (JStr ''42''))] \<and>
   fst (deleteOne offline_service ''42'' ada_world) = Inl (Error ''UNAVAILABLE'') \<and>
   ref_set (doc (collection users_service) (map_of ada ''id'')) ada False (ext empty_world) =
     (Inr (), ext ada_world) \<and>
   ref_get (doc (collection users_service) (map_of ada ''id'')) (ext ada_world) =
     (Inr (Some ada), ext ada_world) \<and>
   calls_made (updateOne users_service ada) empty_world =
     [DocSet (Some (JStr ''42'')) ada False, DocGet (Some (JStr ''42'')),
      PrimeLoader (One ada) None] \<and>
   ref_get (doc (collection blank_service) (map_of ada ''id'')) (ext empty_world) =
     (Inr None, ext empty_world) \<and>
   calls_made (updateOne blank_service ada) empty_world =
     [DocSet (Some (JStr ''42'')) ada False, DocGet (Some (JStr ''42''))] \<and>
   fst (updateOne blank_service ada empty_world) = Inr None \<and>
   ref_set (doc (collection offline_service) (map_of ada ''id'')) ada False (ext empty_world) =
     (Inl (Error ''UNAVAILABLE''), ext empty_world) \<and>
   calls_made (updateOne offline_service ada) empty_world =
     [DocSet (Some (JStr ''42'')) ada False] \<and>
   fst (updateOne offline_service ada empty_world) = Inl (Error ''UNAVAILABLE'') \<and>
   ref_get (doc (collection users_service) (Some (JStr ''42'')))
       [(''42'', [(''name'', JStr ''Ada L'')])] =
     (Inr (Some [(''id'', JStr ''42''), (''collection'', JStr ''users''),
        (''name'', JStr ''Ada L'')]), [(''42'', [(''name'', JStr ''Ada L'')])]) \<and>
   calls_made (updateOnePartial users_service ''42'' [(''name'', JStr ''Ada L'')])
       \<lparr>ext = [(''42'', [(''name'', JStr ''Ada'')])], calls = []\<rparr> =
     [DocSet (Some (JStr ''42'')) [(''name'', JStr ''Ada L'')] True, DocGet (Some (JStr ''42'')),
      PrimeLoader
        (One [(''id'', JStr ''42''), (''collection'', JStr ''users''), (''name'', JStr ''Ada L'')])
        None] \<and>
   ''id'' \<notin> fst ` set [(''name'', JStr ''Ada'')] \<and>
   calls_made (createOne users_service [(''name'', JStr ''Ada'')] (Some (Whole 60))) empty_world =
     [Add [(''name'', JStr ''Ada'')], AddedGet,
      PrimeLoader
        (One [(''id'', JStr ''auto0''), (''collection'', JStr ''users''), (''name'', JStr ''Ada'')])
        (Some (Whole 60))] \<and>
   ''id'' \<in> fst ` set ada \<and>
   createOne users_service ada (Some (Whole 60)) = updateOne users_service ada"
proof -
  have id: "map_of ada ''id'' = Some (JStr ''42'')"
    by code_simp
  have has_id: "''id'' \<in> fst ` set ada"
    by (simp add: ada_def)
  have no_id: "''id'' \<notin> fst ` set [(''name'', JStr ''Ada'')]"
    by simp
  have offline [simp]: "collection offline_service = unreachable_collection"
    and blank [simp]: "collection blank_service = blank_collection"
    by (simp_all add: offline_service_def blank_service_def)

  have deleted:
    "ref_delete (doc (collection users_service) (Some (JStr ''42''))) (ext ada_world) =
       (Inr JNull, [])"
    by code_simp
  have delete_calls:
    "calls_made (deleteOne users_service ''42'') ada_world =
       [DocDelete (Some (JStr ''42'')), DeleteFromCacheById ''42'']"
    using store_then_cache [where this = users_service and docId = "''42''" and w = ada_world
        and response = JNull and ?e1.0 = "[]", THEN conjunct1, THEN mp, OF deleted]
    by (rule conjunct1)

  have not_deleted:
    "ref_delete (doc (collection offline_service) (Some (JStr ''42''))) (ext ada_world) =
       (Inl (Error ''UNAVAILABLE''), ext ada_world)"
    by (simp add: unreachable_collection_def)
  note failed_delete =
    store_then_cache [where this = offline_service and docId = "''42''" and w = ada_world
        and err = "Error ''UNAVAILABLE''" and ?e1.0 = "ext ada_world",
        THEN conjunct2, THEN conjunct1, THEN mp, OF not_deleted]

  have written:
    "ref_set (doc (collection users_service) (map_of ada ''id'')) ada False (ext empty_world) =
       (Inr (), ext ada_world)"
    by code_simp
  have read:
    "ref_get (doc (collection users_service) (map_of ada ''id'')) (ext ada_world) =
       (Inr (Some ada), ext ada_world)"
    by code_simp
  have update_calls:
    "calls_made (updateOne users_service ada) empty_world =
       [DocSet (Some (JStr ''42'')) ada False, DocGet (Some (JStr ''42'')),
        PrimeLoader (One ada) None]"
    using store_then_cache [where this = users_service and w = empty_world and data = ada
        and ?e1.0 = "ext ada_world" and r = ada and ?e2.0 = "ext ada_world",
        THEN conjunct2, THEN conjunct2, THEN conjunct1, THEN mp, OF conjI [OF written read]]
    by (simp only: id)

  have blank_written:
    "ref_set (doc (collection blank_service) (map_of ada ''id'')) ada False (ext empty_world) =
       (Inr (), ext empty_world)"
    by (simp add: blank_collection_def blank_reference_def)
  have blank_read:
    "ref_get (doc (collection blank_service) (map_of ada ''id'')) (ext empty_world) =
       (Inr None, ext empty_world)"
    by (simp add: blank_collection_def blank_reference_def)
  have nothing_found:
    "calls_made (updateOne blank_service ada) empty_world =
       [DocSet (Some (JStr ''42'')) ada False, DocGet (Some (JStr ''42''))] \<and>
     fst (updateOne blank_service ada empty_world) = Inr None"
    using store_then_cache [where this = blank_service and w = empty_world and data = ada
        and ?e1.0 = "ext empty_world" and ?e2.0 = "ext empty_world",
        THEN conjunct2, THEN conjunct2, THEN conjunct2, THEN conjunct1, THEN mp,
        OF conjI [OF blank_written blank_read]]
    by (simp only: id)

  have not_written:
    "ref_set (doc (collection offline_service) (map_of ada ''id'')) ada False (ext empty_world) =
       (Inl (Error ''UNAVAILABLE''), ext empty_world)"
    by (simp add: unreachable_collection_def)
  have failed_update:
    "calls_made (updateOne offline_service ada) empty_world =
       [DocSet (Some (JStr ''42'')) ada False] \<and>
     fst (updateOne offline_service ada empty_world) = Inl (Error ''UNAVAILABLE'')"
    using store_then_cache [where this = offline_service and w = empty_world and data = ada
        and err = "Error ''UNAVAILABLE''" and ?e1.0 = "ext empty_world",
        THEN conjunct2, THEN conjunct2, THEN conjunct2, THEN conjunct2, THEN conjunct1,
        THEN mp, OF not_written]
    by (simp only: id)

  have merged_written:
    "ref_set (doc (collection users_service) (Some (JStr ''42''))) [(''name'', JStr ''Ada L'')]
       True (ext \<lparr>ext = [(''42'', [(''name'', JStr ''Ada'')])], calls = []\<rparr>) =
       (Inr (), [(''42'', [(''name'', JStr ''Ada L'')])])"
    by code_simp
  have merged_read:
    "ref_get (doc (collection users_service) (Some (JStr ''42'')))
        [(''42'', [(''name'', JStr ''Ada L'')])] =
       (Inr (Some [(''id'', JStr ''42''), (''collection'', JStr ''users''),
          (''name'', JStr ''Ada L'')]), [(''42'', [(''name'', JStr ''Ada L'')])])"
    by code_simp
  have merge_calls:
    "calls_made (updateOnePartial users_service ''42'' [(''name'', JStr ''Ada L'')])
         \<lparr>ext = [(''42'', [(''name'', JStr ''Ada'')])], calls = []\<rparr> =
       [DocSet (Some (JStr ''42'')) [(''name'', JStr ''Ada L'')] True,
        DocGet (Some (JStr ''42'')),
        PrimeLoader
          (One [(''id'', JStr ''42''), (''collection'', JStr ''users''),
             (''name'', JStr ''Ada L'')])
          None]"
    using store_then_cache [where this = users_service and docId = "''42''"
        and w = "\<lparr>ext = [(''42'', [(''name'', JStr ''Ada'')])], calls = []\<rparr>"
        and data = "[(''name'', JStr ''Ada L'')]"
        and ?e1.0 = "[(''42'', [(''name'', JStr ''Ada L'')])]"
        and r = "[(''id'', JStr ''42''), (''collection'', JStr ''users''),
          (''name'', JStr ''Ada L'')]"
        and ?e2.0 = "[(''42'', [(''name'', JStr ''Ada L'')])]",
        THEN conjunct2, THEN conjunct2, THEN conjunct2, THEN conjunct2, THEN conjunct2,
        THEN conjunct1, THEN mp, OF conjI [OF merged_written merged_read]]
    by (rule conjunct1)

  define dRef :: "(number memory, number) document_reference"
    where "dRef = memory_reference FirestoreConverter ''users'' (Some (JStr ''auto0''))"
  have fresh: "digits_of 0 = ''0''"
    by code_simp
  have added:
    "add (collection users_service) [(''name'', JStr ''Ada'')] (ext empty_world) =
       (Inr dRef, [(''auto0'', [(''name'', JStr ''Ada'')])])"
    unfolding dRef_def
    by (simp add: users_service_def users_source_def initialize_def memory_collection_def
        empty_world_def FirestoreConverter_def Let_def fresh)
  have read_added:
    "ref_get dRef [(''auto0'', [(''name'', JStr ''Ada'')])] =
       (Inr (Some [(''id'', JStr ''auto0''), (''collection'', JStr ''users''),
          (''name'', JStr ''Ada'')]), [(''auto0'', [(''name'', JStr ''Ada'')])])"
    unfolding dRef_def
    by (simp add: memory_reference_def FirestoreConverter_def spread_def)
  have create_calls:
    "calls_made (createOne users_service [(''name'', JStr ''Ada'')] (Some (Whole 60)))
       empty_world =
       [Add [(''name'', JStr ''Ada'')], AddedGet,
        PrimeLoader
          (One [(''id'', JStr ''auto0''), (''collection'', JStr ''users''),
             (''name'', JStr ''Ada'')])
          (Some (Whole 60))]"
    using store_then_cache [where this = users_service and w = empty_world
        and newDoc = "[(''name'', JStr ''Ada'')]" and dRef = dRef and ttl = "Some (Whole 60)"
        and ?e1.0 = "[(''auto0'', [(''name'', JStr ''Ada'')])]"
        and r = "[(''id'', JStr ''auto0''), (''collection'', JStr ''users''),
          (''name'', JStr ''Ada'')]"
        and ?e2.0 = "[(''auto0'', [(''name'', JStr ''Ada'')])]",
        THEN conjunct2, THEN conjunct2, THEN conjunct2, THEN conjunct2, THEN conjunct2,
        THEN conjunct2, THEN conjunct1, THEN mp, OF conjI [OF no_id conjI [OF added read_added]]]
    by (rule conjunct1)

  have same: "createOne users_service ada (Some (Whole 60)) = updateOne users_service ada"
    using store_then_cache [where this = users_service and newDoc = ada
        and ttl = "Some (Whole 60)",
        THEN conjunct2, THEN conjunct2, THEN conjunct2, THEN conjunct2, THEN conjunct2,
        THEN conjunct2, THEN conjunct2, THEN mp, OF has_id] .

  show ?thesis
    by (intro conjI deleted delete_calls not_deleted failed_delete [THEN conjunct1]
        failed_delete [THEN conjunct2] written read update_calls blank_read
        nothing_found [THEN conjunct1] nothing_found [THEN conjunct2] not_written
        failed_update [THEN conjunct1] failed_update [THEN conjunct2] merged_read merge_calls
        no_id create_calls has_id same)
qed

subsection \<open>createOne with an id\<close>

text \<open>
  C9.  For a document that has the field \<open>id\<close>, \<open>createOne\<close> with any \<open>ttl\<close> is
  \<open>updateOne\<close> of the document: the same result, the same calls and the same state after,
  from every state; so the \<open>ttl\<close> passed has no effect.
\<close>

theorem createOne_with_id:
  "''id'' \<in> fst ` set newDoc \<Longrightarrow>
     createOne this newDoc ttl = updateOne this newDoc \<and>
     createOne this newDoc ttl w = createOne this newDoc None w"
  by (simp add: createOne_def)

theorem createOne_with_id_witness:
  "''id'' \<in> fst ` set ada \<and>
   createOne users_service ada (Some (Whole 60)) = updateOne users_service ada \<and>
   calls (snd (createOne users_service ada (Some (Whole 60)) empty_world)) =
     [Debug (UpdatingDocId (Some (JStr ''42''))),
      DocSet (Some (JStr ''42'')) ada False, DocGet (Some (JStr ''42'')),
      PrimeLoader (One ada) None]"
proof -
  have has_id: "''id'' \<in> fst ` set ada"
    by (simp add: ada_def)
  have "calls (snd (updateOne users_service ada empty_world)) =
     [Debug (UpdatingDocId (Some (JStr ''42''))),
      DocSet (Some (JStr ''42'')) ada False, DocGet (Some (JStr ''42'')),
      PrimeLoader (One ada) None]"
    by code_simp
  then show ?thesis
    using has_id createOne_with_id [OF has_id, of users_service "Some (Whole 60)" empty_world]
    by simp
qed

subsection \<open>findManyByQuery\<close>

lemma findManyByQuery_primes:
  assumes "queryFunction (collection this) (ext w) = (Inr qSnap, e1)"
    and "dataLoader this \<noteq> None"
  shows "calls_made (findManyByQuery queryFunction this ttl) w =
      [QueryGet, PrimeLoader (Many (snap_docs qSnap)) ttl]"
    and "ext (snd (findManyByQuery queryFunction this ttl w)) =
      snd (primeLoader this (Many (snap_docs qSnap), ttl) e1)"
    and "fst (primeLoader this (Many (snap_docs qSnap), ttl) e1) = Inr () \<and>
         (logger (options this) \<longrightarrow> toDate (readTime qSnap) = Inr date) \<longrightarrow>
      fst (findManyByQuery queryFunction this ttl w) = Inr (snap_docs qSnap)"
    and "fst (primeLoader this (Many (snap_docs qSnap), ttl) e1) = Inl err \<longrightarrow>
      fst (findManyByQuery queryFunction this ttl w) = Inl err"
  using assms
  by (auto simp add: findManyByQuery_def action_defs Let_def split: prod.splits sum.splits)

lemma findManyByQuery_without_loader:
  assumes "queryFunction (collection this) (ext w) = (Inr qSnap, e1)"
    and "dataLoader this = None"
  shows "calls_made (findManyByQuery queryFunction this ttl) w = [QueryGet]"
    and "ext (snd (findManyByQuery queryFunction this ttl w)) = e1"
    and "(logger (options this) \<longrightarrow> toDate (readTime qSnap) = Inr date) \<longrightarrow>
      fst (findManyByQuery queryFunction this ttl w) = Inr (snap_docs qSnap)"
  using assms
  by (auto simp add: findManyByQuery_def action_defs Let_def split: prod.splits sum.splits)

lemma findManyByQuery_log_throws:
  assumes "queryFunction (collection this) (ext w) = (Inr qSnap, e1)"
    and "logger (options this)"
    and "toDate (readTime qSnap) = Inl err"
    and "dataLoader this \<noteq> None \<longrightarrow>
      fst (primeLoader this (Many (snap_docs qSnap), ttl) e1) = Inr ()"
  shows "fst (findManyByQuery queryFunction this ttl w) = Inl err"
  using assms
  by (auto simp add: findManyByQuery_def action_defs Let_def split: prod.splits sum.splits)

lemma findManyByQuery_failed:
  assumes "queryFunction (collection this) (ext w) = (Inl err, e1)"
  shows "calls_made (findManyByQuery queryFunction this ttl) w = [QueryGet]"
    and "fst (findManyByQuery queryFunction this ttl w) = Inl err"
  using assms
  by (simp_all add: findManyByQuery_def action_defs Let_def split: prod.splits sum.splits)

text \<open>
  C8, as the code has it.  \<open>findManyByQuery\<close> always runs the query on the store first,
  and calls no caching method that reads.  When the query resolves and the data source
  has a loader (\<open>dataLoader\<close> is set, which \<open>initialize\<close> does), the only other call is
  \<open>primeLoader\<close> of the documents of the snapshot, all at once and with the \<open>ttl\<close>; when
  that resolves, and the log line can be written, the result is exactly those documents
  in their order, and when it throws, its error is thrown on.  Without a loader nothing is
  primed, and the result, when the log line can be written, is the documents of the
  snapshot.  The log line can be written when there is no logger or the read time of the
  snapshot is a Timestamp; with a logger and another read time, \<^verbatim>\<open>readTime.toDate()\<close>
  throws after the priming and the method throws its error.  When the query throws, the
  error is thrown on and nothing is primed.
\<close>

theorem query_then_prime:
  "(queryFunction (collection this) (ext w) = (Inr qSnap, e1) \<and> dataLoader this \<noteq> None \<longrightarrow>
      calls_made (findManyByQuery queryFunction this ttl) w =
        [QueryGet, PrimeLoader (Many (snap_docs qSnap)) ttl] \<and>
      ext (snd (findManyByQuery queryFunction this ttl w)) =
        snd (primeLoader this (Many (snap_docs qSnap), ttl) e1) \<and>
      (fst (primeLoader this (Many (snap_docs qSnap), ttl) e1) = Inr () \<and>
       (logger (options this) \<longrightarrow> toDate (readTime qSnap) = Inr date) \<longrightarrow>
         fst (findManyByQuery queryFunction this ttl w) = Inr (snap_docs qSnap)) \<and>
      (fst (primeLoader this (Many (snap_docs qSnap), ttl) e1) = Inl err \<longrightarrow>
         fst (findManyByQuery queryFunction this ttl w) = Inl err)) \<and>
   (queryFunction (collection this) (ext w) = (Inr qSnap, e1) \<and> dataLoader this = None \<longrightarrow>
      calls_made (findManyByQuery queryFunction this ttl) w = [QueryGet] \<and>
      ext (snd (findManyByQuery queryFunction this ttl w)) = e1 \<and>
      ((logger (options this) \<longrightarrow> toDate (readTime qSnap) = Inr date) \<longrightarrow>
         fst (findManyByQuery queryFunction this ttl w) = Inr (snap_docs qSnap))) \<and>
   (queryFunction (collection this) (ext w) = (Inr qSnap, e1) \<and>
    logger (options this) \<and> toDate (readTime qSnap) = Inl err \<and>
    (dataLoader this \<noteq> None \<longrightarrow>
       fst (primeLoader this (Many (snap_docs qSnap), ttl) e1) = Inr ()) \<longrightarrow>
      fst (findManyByQuery queryFunction this ttl w) = Inl err) \<and>
   (queryFunction (collection this) (ext w) = (Inl err, e1) \<longrightarrow>
      calls_made (findManyByQuery queryFunction this ttl) w = [QueryGet] \<and>
      fst (findManyByQuery queryFunction this ttl w) = Inl err)"
proof -
  have primed:
    "queryFunction (collection this) (ext w) = (Inr qSnap, e1) \<and> dataLoader this \<noteq> None \<longrightarrow>
      calls_made (findManyByQuery queryFunction this ttl) w =
        [QueryGet, PrimeLoader (Many (snap_docs qSnap)) ttl] \<and>
      ext (snd (findManyByQuery queryFunction this ttl w)) =
        snd (primeLoader this (Many (snap_docs qSnap), ttl) e1) \<and>
      (fst (primeLoader this (Many (snap_docs qSnap), ttl) e1) = Inr () \<and>
       (logger (options this) \<longrightarrow> toDate (readTime qSnap) = Inr date) \<longrightarrow>
         fst (findManyByQuery queryFunction this ttl w) = Inr (snap_docs qSnap)) \<and>
      (fst (primeLoader this (Many (snap_docs qSnap), ttl) e1) = Inl err \<longrightarrow>
         fst (findManyByQuery queryFunction this ttl w) = Inl err)"
    using findManyByQuery_primes [of queryFunction this w qSnap e1] by blast
  have not_primed:
    "queryFunction (collection this) (ext w) = (Inr qSnap, e1) \<and> dataLoader this = None \<longrightarrow>
      calls_made (findManyByQuery queryFunction this ttl) w = [QueryGet] \<and>
      ext (snd (findManyByQuery queryFunction this ttl w)) = e1 \<and>
      ((logger (options this) \<longrightarrow> toDate (readTime qSnap) = Inr date) \<longrightarrow>
         fst (findManyByQuery queryFunction this ttl w) = Inr (snap_docs qSnap))"
    using findManyByQuery_without_loader [of queryFunction this w qSnap e1] by blast
  have log_throws:
    "queryFunction (collection this) (ext w) = (Inr qSnap, e1) \<and>
     logger (options this) \<and> toDate (readTime qSnap) = Inl err \<and>
     (dataLoader this \<noteq> None \<longrightarrow>
        fst (primeLoader this (Many (snap_docs qSnap), ttl) e1) = Inr ()) \<longrightarrow>
      fst (findManyByQuery queryFunction this ttl w) = Inl err"
    using findManyByQuery_log_throws [of queryFunction this w qSnap e1 err ttl] by blast
  have failed:
    "queryFunction (collection this) (ext w) = (Inl err, e1) \<longrightarrow>
      calls_made (findManyByQuery queryFunction this ttl) w = [QueryGet] \<and>
      fst (findManyByQuery queryFunction this ttl w) = Inl err"
    using findManyByQuery_failed [of queryFunction this w err e1 ttl] by blast
  show ?thesis by (intro conjI primed not_primed log_throws failed)
qed

lemma all_documents_of_ada:
  "all_documents (collection this) (ext ada_world) =
     (Inr \<lparr>snap_docs = [ada], snap_size = 1,
           readTime = Timestamp (Whole 1690000100) (Whole 0)\<rparr>, ext ada_world)"
  by (simp add: all_documents_def ada_world_def FirestoreConverter_def ada_def spread_def)

lemma untimed_documents_of_ada:
  "untimed_documents (collection this) (ext ada_world) =
     (Inr \<lparr>snap_docs = [ada], snap_size = 1, readTime = JNull\<rparr>, ext ada_world)"
  by (simp add: untimed_documents_def ada_world_def FirestoreConverter_def ada_def spread_def)

theorem query_then_prime_witness:
  "all_documents (collection users_service) (ext ada_world) =
     (Inr \<lparr>snap_docs = [ada], snap_size = 1,
           readTime = Timestamp (Whole 1690000100) (Whole 0)\<rparr>, ext ada_world) \<and>
   dataLoader users_service \<noteq> None \<and>
   calls_made (findManyByQuery all_documents users_service (Some (Whole 60))) ada_world =
     [QueryGet, PrimeLoader (Many [ada]) (Some (Whole 60))] \<and>
   fst (primeLoader users_service (Many [ada], Some (Whole 60)) (ext ada_world)) = Inr () \<and>
   logger (options users_service) \<and>
   toDate (Timestamp (Whole 1690000100) (Whole 0)) =
     Inr (Timestamp (Whole 1690000100) (Whole 0)) \<and>
   fst (findManyByQuery all_documents users_service (Some (Whole 60)) ada_world) = Inr [ada] \<and>
   dataLoader uncached_service \<noteq> None \<and>
   fst (primeLoader uncached_service (Many [ada], Some (Whole 60)) (ext ada_world)) =
     Inl (Error ''cache unavailable'') \<and>
   fst (findManyByQuery all_documents uncached_service (Some (Whole 60)) ada_world) =
     Inl (Error ''cache unavailable'') \<and>
   dataLoader users_source = None \<and>
   logger (options users_source) \<and>
   calls_made (findManyByQuery all_documents users_source (Some (Whole 60))) ada_world =
     [QueryGet] \<and>
   fst (findManyByQuery all_documents users_source (Some (Whole 60)) ada_world) = Inr [ada] \<and>
   untimed_documents (collection users_service) (ext ada_world) =
     (Inr \<lparr>snap_docs = [ada], snap_size = 1, readTime = JNull\<rparr>, ext ada_world) \<and>
   toDate (JNull :: number jsvalue) = Inl TypeError \<and>
   fst (findManyByQuery untimed_documents users_service (Some (Whole 60)) ada_world) =
     Inl TypeError \<and>
   unreachable_query (collection users_service) (ext ada_world) =
     (Inl (Error ''UNAVAILABLE''), ext ada_world) \<and>
   calls_made (findManyByQuery unreachable_query users_service (Some (Whole 60))) ada_world =
     [QueryGet] \<and>
   fst (findManyByQuery unreachable_query users_service (Some (Whole 60)) ada_world) =
     Inl (Error ''UNAVAILABLE'')"
proof -
  let ?read = "Timestamp (Whole 1690000100) (Whole 0) :: number jsvalue"
  let ?timed = "\<lparr>snap_docs = [ada], snap_size = 1, readTime = ?read\<rparr>"
  let ?untimed = "\<lparr>snap_docs = [ada], snap_size = 1, readTime = JNull :: number jsvalue\<rparr>"
  have loader: "dataLoader users_service \<noteq> None"
    by (simp add: users_service_def initialize_def resolving_methods_def Let_def)
  have uncached_loader: "dataLoader uncached_service \<noteq> None"
    by (simp add: uncached_service_def users_service_def initialize_def resolving_methods_def
        Let_def)
  have no_loader: "dataLoader users_source = None"
    by (simp add: users_source_def)
  have logs: "logger (options users_service)"
    by (simp add: users_service_def users_source_def initialize_def Let_def)
  have source_logs: "logger (options users_source)"
    by (simp add: users_source_def)
  have date: "toDate ?read = Inr ?read"
    by (simp add: toDate_def)
  have no_date: "toDate (JNull :: number jsvalue) = Inl TypeError"
    by (simp add: toDate_def)
  have resolves:
    "fst (primeLoader users_service (Many [ada], Some (Whole 60)) (ext ada_world)) = Inr ()"
    by (simp add: users_service_def initialize_def resolving_methods_def Let_def)
  have throws:
    "fst (primeLoader uncached_service (Many [ada], Some (Whole 60)) (ext ada_world)) =
       Inl (Error ''cache unavailable'')"
    by (simp add: uncached_service_def)
  have unreachable:
    "unreachable_query (collection users_service) (ext ada_world) =
       (Inl (Error ''UNAVAILABLE''), ext ada_world)"
    by (simp add: unreachable_query_def)
  note primed =
    query_then_prime [where queryFunction = all_documents and this = users_service
      and w = ada_world and qSnap = ?timed and date = ?read
      and ?e1.0 = "ext ada_world" and ttl = "Some (Whole 60)",
      THEN conjunct1, THEN mp, OF conjI [OF all_documents_of_ada loader]]
  note uncached =
    query_then_prime [where queryFunction = all_documents and this = uncached_service
      and w = ada_world and qSnap = ?timed and err = "Error ''cache unavailable''"
      and ?e1.0 = "ext ada_world" and ttl = "Some (Whole 60)",
      THEN conjunct1, THEN mp, OF conjI [OF all_documents_of_ada uncached_loader]]
  note not_primed =
    query_then_prime [where queryFunction = all_documents and this = users_source
      and w = ada_world and qSnap = ?timed and date = ?read
      and ?e1.0 = "ext ada_world" and ttl = "Some (Whole 60)",
      THEN conjunct2, THEN conjunct1, THEN mp, OF conjI [OF all_documents_of_ada no_loader]]
  note log_throws =
    query_then_prime [where queryFunction = untimed_documents and this = users_service
      and w = ada_world and qSnap = ?untimed and err = TypeError
      and ?e1.0 = "ext ada_world" and ttl = "Some (Whole 60)",
      THEN conjunct2, THEN conjunct2, THEN conjunct1, THEN mp]
  note failed =
    query_then_prime [where queryFunction = unreachable_query and this = users_service
      and w = ada_world and err = "Error ''UNAVAILABLE''"
      and ?e1.0 = "ext ada_world" and ttl = "Some (Whole 60)",
      THEN conjunct2, THEN conjunct2, THEN conjunct2, THEN mp, OF unreachable]
  have result:
    "fst (findManyByQuery all_documents users_service (Some (Whole 60)) ada_world) = Inr [ada]"
    using primed [THEN conjunct2, THEN conjunct2, THEN conjunct1] resolves date by simp
  have primed_calls:
    "calls_made (findManyByQuery all_documents users_service (Some (Whole 60))) ada_world =
       [QueryGet, PrimeLoader (Many [ada]) (Some (Whole 60))]"
    using primed [THEN conjunct1] by simp
  have uncached_result:
    "fst (findManyByQuery all_documents uncached_service (Some (Whole 60)) ada_world) =
       Inl (Error ''cache unavailable'')"
    using uncached [THEN conjunct2, THEN conjunct2, THEN conjunct2] throws by simp
  have not_primed_result:
    "fst (findManyByQuery all_documents users_source (Some (Whole 60)) ada_world) = Inr [ada]"
    using not_primed [THEN conjunct2, THEN conjunct2] date by simp
  have not_primed_calls:
    "calls_made (findManyByQuery all_documents users_source (Some (Whole 60))) ada_world =
       [QueryGet]"
    using not_primed [THEN conjunct1] .
  have untimed_result:
    "fst (findManyByQuery untimed_documents users_service (Some (Whole 60)) ada_world) =
       Inl TypeError"
    using log_throws untimed_documents_of_ada [of users_service] logs no_date resolves
    by simp
  show ?thesis
    by (intro conjI all_documents_of_ada loader primed_calls resolves logs date result
        uncached_loader throws uncached_result no_loader source_logs not_primed_calls
        not_primed_result untimed_documents_of_ada no_date untimed_result unreachable
        failed [THEN conjunct1] failed [THEN conjunct2])
qed

text \<open>
  C8, as stated, fails in two ways.  On a data source that has not been initialised the
  guard \<^verbatim>\<open>if (this.dataLoader && results)\<close> skips \<open>primeLoader\<close>: the data source that
  the constructor returns for the collection in memory, asked for every document of the
  store that holds \<open>ada\<close>, returns \<open>ada\<close>, and the only calls are the query and the log
  line.  On a data source whose \<open>primeLoader\<close> throws, the documents of the snapshot are
  not returned: the method throws the error of \<open>primeLoader\<close>.
\<close>

theorem query_without_loader_primes_nothing:
  "fst (constructor (Properties (memory_collection ''users'')) \<lparr>logger = True\<rparr> empty_world) =
     Inr users_source \<and>
   fst (findManyByQuery all_documents users_source None ada_world) = Inr [ada] \<and>
   calls (snd (findManyByQuery all_documents users_source None ada_world)) =
     [QueryGet, Debug (FindManyByQueryComplete 1 (Timestamp (Whole 1690000100) (Whole 0)))] \<and>
   fst (findManyByQuery all_documents uncached_service None ada_world) =
     Inl (Error ''cache unavailable'') \<and>
   calls (snd (findManyByQuery all_documents uncached_service None ada_world)) =
     [QueryGet, PrimeLoader (Many [ada]) None]"
proof -
  have built: "fst (constructor (Properties (memory_collection ''users'')) \<lparr>logger = True\<rparr>
      empty_world) = Inr users_source"
    by (simp add: constructor_def andThen_def debug_def users_source_def memory_collection_def)
  have source: "dataLoader users_source = None" "options users_source = \<lparr>logger = True\<rparr>"
    by (simp_all add: users_source_def)
  have uncached: "dataLoader uncached_service = Some DataLoader"
    "primeLoader uncached_service = (\<lambda>a e. (Inl (Error ''cache unavailable''), e))"
    by (simp_all add: uncached_service_def users_service_def initialize_def
        resolving_methods_def Let_def)
  have returned: "fst (findManyByQuery all_documents users_source None ada_world) = Inr [ada]"
    and logged: "calls (snd (findManyByQuery all_documents users_source None ada_world)) =
      [QueryGet, Debug (FindManyByQueryComplete 1 (Timestamp (Whole 1690000100) (Whole 0)))]"
    using all_documents_of_ada [of users_source] source
    by (simp_all add: findManyByQuery_def andThen_def await_def return_def debug_def Let_def
        toDate_def ada_world_def)
  have thrown: "fst (findManyByQuery all_documents uncached_service None ada_world) =
      Inl (Error ''cache unavailable'')"
    and primed: "calls (snd (findManyByQuery all_documents uncached_service None ada_world)) =
      [QueryGet, PrimeLoader (Many [ada]) None]"
    using all_documents_of_ada [of uncached_service] uncached
    by (simp_all add: findManyByQuery_def andThen_def await_def return_def Let_def
        ada_world_def)
  show ?thesis
    by (intro conjI built returned logged thrown primed)
qed

subsection \<open>The constructor\<close>

text \<open>
  C7.  When one of the properties \<open>id\<close>, \<open>path\<close>, \<open>firestore\<close> and \<open>doc\<close> of the argument
  is missing (\<^verbatim>\<open>undefined\<close>) or falsy, the constructor throws
  \<open>FirestoreDataSource must be created with a Firestore collection (from
  @google-cloud/firestore)\<close>; for \<^verbatim>\<open>null\<close> or \<^verbatim>\<open>undefined\<close> it throws a
  TypeError.  In both cases no data source is returned, and the collaborators' state is
  not touched.
\<close>

theorem constructor_throws:
  "(k \<in> {''id'', ''path'', ''firestore'', ''doc''} \<and> \<not> truthy (property c k) \<longrightarrow>
      fst (constructor (Properties c) opts w) =
        Inl (Error (''FirestoreDataSource must be created with a Firestore collection '' @
          ''(from @google-cloud/firestore)'')) \<and>
      ext (snd (constructor (Properties c) opts w)) = ext w) \<and>
   fst (constructor Nullish opts w) = Inl TypeError \<and>
   ext (snd (constructor Nullish opts w)) = ext w"
  by (auto simp add: constructor_def andThen_def debug_def)

theorem constructor_throws_witness:
  "''doc'' \<in> {''id'', ''path'', ''firestore'', ''doc''} \<and>
   property users_without_doc ''doc'' = Undefined \<and>
   \<not> truthy (property users_without_doc ''doc'') \<and>
   fst (constructor (Properties users_without_doc) \<lparr>logger = True\<rparr> empty_world) =
     Inl (Error (''FirestoreDataSource must be created with a Firestore collection '' @
       ''(from @google-cloud/firestore)''))"
proof -
  have lacking: "property users_without_doc ''doc'' = Undefined"
    by (simp add: users_without_doc_def)
  then show ?thesis
    using constructor_throws [of "''doc''" users_without_doc "\<lparr>logger = True\<rparr>" empty_world]
    by simp
qed

subsection \<open>Before and after initialize\<close>

text \<open>
  C10.  On the data source that the constructor returns, each of \<open>findOneById\<close>,
  \<open>findManyByIds\<close>, \<open>deleteFromCacheById\<close> and \<open>primeLoader\<close> throws
  \<open>DataSource not initialized\<close>, whatever its arguments, and leaves the collaborators'
  state as it was.  After \<open>initialize\<close> each of the four is the method of the same name
  that \<open>createCachingMethods\<close> returned for the data source's collection, the cache passed
  (or a new \<open>InMemoryLRUCache\<close>) and the options.
\<close>

theorem placeholders_until_initialize:
  "(fst (constructor maybeCollection opts w) = Inr this \<longrightarrow>
      findOneById this a1 e = (Inl (Error ''DataSource not initialized''), e) \<and>
      findManyByIds this a2 e = (Inl (Error ''DataSource not initialized''), e) \<and>
      deleteFromCacheById this a3 e = (Inl (Error ''DataSource not initialized''), e) \<and>
      primeLoader this a4 e = (Inl (Error ''DataSource not initialized''), e)) \<and>
   (methods = createCachingMethods
      \<lparr>arg_collection = collection that,
       arg_cache = (case config_cache config of Some c \<Rightarrow> c | None \<Rightarrow> InMemoryLRUCache),
       arg_options = options that\<rparr> \<longrightarrow>
      findOneById (initialize createCachingMethods that config) = m_findOneById methods \<and>
      findManyByIds (initialize createCachingMethods that config) = m_findManyByIds methods \<and>
      deleteFromCacheById (initialize createCachingMethods that config) =
        m_deleteFromCacheById methods \<and>
      primeLoader (initialize createCachingMethods that config) = m_primeLoader methods)"
proof -
  have "findOneById this a1 e = (Inl (Error ''DataSource not initialized''), e) \<and>
      findManyByIds this a2 e = (Inl (Error ''DataSource not initialized''), e) \<and>
      deleteFromCacheById this a3 e = (Inl (Error ''DataSource not initialized''), e) \<and>
      primeLoader this a4 e = (Inl (Error ''DataSource not initialized''), e)"
    if "fst (constructor maybeCollection opts w) = Inr this"
    using that
    by (auto simp add: constructor_def andThen_def debug_def placeholderHandler_def
        split: if_splits sum.splits maybe_collection.splits)
  then show ?thesis
    by (simp add: initialize_def Let_def)
qed

theorem placeholders_until_initialize_witness:
  "fst (constructor (Properties (memory_collection ''users'')) \<lparr>logger = True\<rparr> empty_world) =
     Inr users_source \<and>
   findOneById users_source (''42'', None) (ext ada_world) =
     (Inl (Error ''DataSource not initialized''), ext ada_world) \<and>
   findManyByIds users_source ([''42'', ''7''], None) (ext ada_world) =
     (Inl (Error ''DataSource not initialized''), ext ada_world) \<and>
   deleteFromCacheById users_source ''42'' (ext ada_world) =
     (Inl (Error ''DataSource not initialized''), ext ada_world) \<and>
   primeLoader users_source (One ada, None) (ext ada_world) =
     (Inl (Error ''DataSource not initialized''), ext ada_world) \<and>
   findOneById users_service (''42'', None) (ext ada_world) = (Inr None, ext ada_world) \<and>
   findManyByIds users_service ([''42'', ''7''], None) (ext ada_world) =
     (Inr [None, None], ext ada_world) \<and>
   deleteFromCacheById users_service ''42'' (ext ada_world) = (Inr (), ext ada_world) \<and>
   primeLoader users_service (One ada, None) (ext ada_world) = (Inr (), ext ada_world)"
proof -
  have built: "fst (constructor (Properties (memory_collection ''users'')) \<lparr>logger = True\<rparr>
      empty_world) = Inr users_source"
    by (simp add: constructor_def andThen_def debug_def users_source_def memory_collection_def)
  show ?thesis
    using built
      placeholders_until_initialize [where maybeCollection = "Properties (memory_collection ''users'')"
        and opts = "\<lparr>logger = True\<rparr>" and w = empty_world and this = users_source
        and ?a1.0 = "(''42'', None)" and ?a2.0 = "([''42'', ''7''], None)" and ?a3.0 = "''42''"
        and ?a4.0 = "(One ada, None)" and e = "ext ada_world"
        and createCachingMethods = resolving_methods and that = users_source
        and config = "\<lparr>config_context = None, config_cache = None\<rparr>"]
    by (simp add: users_service_def resolving_methods_def)
qed

end
